theory Spec2Isabelle
  imports Main "HOL-Library.Sublist"
begin

section \<open>Values, documents, exceptions\<close>

text \<open>
  The handlers of \<^verbatim>\<open>main.py\<close> exchange Python dictionaries with the document store and
  with the client. A dictionary is a map from field names to values; the values that occur
  are text, validated URLs, integers, \<^verbatim>\<open>None\<close>, lists, nested dictionaries and the
  store's native identifier (an \<^verbatim>\<open>ObjectId\<close>).
\<close>

datatype val =
    VNone
  | VStr string
  | VUrl string
  | VInt int
  | VList "val list"
  | VDict "(string \<times> val) list"
  | VObjectId nat

type_synonym doc = "string \<rightharpoonup> val"

text \<open>
  Exceptions are values. A Python exception raised by the import of the store module or
  by a call of the store's driver is an \<open>ImportError\<close> or some other subclass of
  \<^verbatim>\<open>Exception\<close>; both carry their message, which is what \<^verbatim>\<open>str(e)\<close> returns.
\<close>

datatype py_exn =
    ImportError string
  | Exception string

fun str_exn :: "py_exn \<Rightarrow> string" where
  "str_exn (ImportError m) = m"
| "str_exn (Exception m) = m"

text \<open>
  What can leave a handler: \<open>HTTPException\<close> with its status code and detail,
  \<open>RequestValidationError\<close>, which the framework's binding step raises for a body that
  does not fit the declared model, or any other exception, raised below the handler.
\<close>

datatype exn =
    HTTPException nat string
  | RequestValidationError
  | Raised py_exn

text \<open>
  The status the framework answers with: 200 for a handler that returns, the exception's
  own code for an \<open>HTTPException\<close>, 422 for a body that fails binding, 500 for any
  other exception that leaves the handler.
\<close>

fun http_status :: "exn + 'a \<Rightarrow> nat" where
  "http_status (Inr r) = 200"
| "http_status (Inl (HTTPException c d)) = c"
| "http_status (Inl RequestValidationError) = 422"
| "http_status (Inl (Raised e)) = 500"

section \<open>The diagnostic route \<^verbatim>\<open>/test\<close>\<close>

text \<open>The three non-ASCII marks of the status texts, as their UTF-8 bytes.\<close>

definition check_mark :: string where
  "check_mark = [CHR 0xE2, CHR 0x9C, CHR 0x85]"

definition cross_mark :: string where
  "cross_mark = [CHR 0xE2, CHR 0x9D, CHR 0x8C]"

definition warning_sign :: string where
  "warning_sign = [CHR 0xE2, CHR 0x9A, CHR 0xA0, CHR 0xEF, CHR 0xB8, CHR 0x8F]"

text \<open>
  What \<^verbatim>\<open>test_database\<close> reads from its surroundings: the outcome of
  \<^verbatim>\<open>from database import db\<close> (an exception, or the module's \<^verbatim>\<open>db\<close>, which may be
  \<^verbatim>\<open>None\<close>), and the process environment. Of a connection the handler uses the
  attribute \<^verbatim>\<open>name\<close> (if it has one) and the call \<^verbatim>\<open>list_collection_names()\<close>,
  which returns the names or raises.
\<close>

record db_handle =
  db_name :: "string option"
  list_collection_names :: "py_exn + string list"

record test_env =
  import_db :: "py_exn + db_handle option"
  getenv :: "string \<Rightarrow> string option"

record test_response =
  backend :: string
  database :: string
  database_url :: "string option"
  database_name :: "string option"
  connection_status :: string
  collections :: "string list"

text \<open>Truth value of \<^verbatim>\<open>os.getenv(k)\<close>: unset and the empty text are both false.\<close>

definition env_set :: "test_env \<Rightarrow> string \<Rightarrow> bool" where
  "env_set env k = (case getenv env k of None \<Rightarrow> False | Some v \<Rightarrow> v \<noteq> [])"

definition is_ImportError :: "py_exn \<Rightarrow> bool" where
  "is_ImportError e = (case e of ImportError m \<Rightarrow> True | _ \<Rightarrow> False)"

text \<open>The body of the inner \<^verbatim>\<open>if db is not None\<close> branch, lines 44 to 55.\<close>

definition probe_connection :: "db_handle \<Rightarrow> test_response \<Rightarrow> test_response" where
  "probe_connection db response =
     (let response = response\<lparr>
            database := check_mark @ '' Available'',
            database_url := Some (check_mark @ '' Configured''),
            database_name := Some (case db_name db of Some n \<Rightarrow> n
                                   | None \<Rightarrow> check_mark @ '' Connected''),
            connection_status := ''Connected''\<rparr>
      in case list_collection_names db of
           Inr cs \<Rightarrow> response\<lparr>
             collections := take 10 cs,
             database := check_mark @ '' Connected & Working''\<rparr>
         | Inl e \<Rightarrow> response\<lparr>
             database := warning_sign @ ''  Connected but Error: '' @ take 50 (str_exn e)\<rparr>)"

definition test_database :: "test_env \<Rightarrow> exn + test_response" where
  "test_database env =
     (let response = \<lparr>
            backend = check_mark @ '' Running'',
            database = cross_mark @ '' Not Available'',
            database_url = None,
            database_name = None,
            connection_status = ''Not Connected'',
            collections = []\<rparr>;
          response =
            (case import_db env of
               Inr (Some db) \<Rightarrow> probe_connection db response
             | Inr None \<Rightarrow> response\<lparr>
                 database := warning_sign @ ''  Available but not initialized''\<rparr>
             | Inl e \<Rightarrow>
                 if is_ImportError e
                 then response\<lparr>database :=
                   cross_mark @ '' Database module not found (run enable-database first)''\<rparr>
                 else response\<lparr>database :=
                   cross_mark @ '' Error: '' @ take 50 (str_exn e)\<rparr>);
          response = response\<lparr>database_url := Some
            (if env_set env ''DATABASE_URL'' then check_mark @ '' Set''
             else cross_mark @ '' Not Set'')\<rparr>;
          response = response\<lparr>database_name := Some
            (if env_set env ''DATABASE_NAME'' then check_mark @ '' Set''
             else cross_mark @ '' Not Set'')\<rparr>
      in Inr response)"

section \<open>API models for the art library\<close>

definition RARITIES :: "string set" where
  "RARITIES = {''Common'', ''Rare'', ''Epic'', ''Legendary'', ''Champion''}"

record CharacterCreate =
  name :: string
  rarity :: string
  nation_code :: "string option"
  role :: "string option"
  bio :: "string option"
  image_url :: "string option"
  palette :: "(string \<times> string) list option"
  stats :: "(string \<times> int) list option"
  tags :: "string list"

record ItemCreate =
  name :: string
  type :: string
  rarity :: string
  effect :: "string option"
  image_url :: "string option"
  tags :: "string list"

definition CharacterCreate_validate_rarity :: "CharacterCreate \<Rightarrow> exn + unit" where
  "CharacterCreate_validate_rarity self =
     (if CharacterCreate.rarity self \<notin> RARITIES
      then Inl (HTTPException 400 ''Invalid rarity'') else Inr ())"

definition ItemCreate_validate_rarity :: "ItemCreate \<Rightarrow> exn + unit" where
  "ItemCreate_validate_rarity self =
     (if ItemCreate.rarity self \<notin> RARITIES
      then Inl (HTTPException 400 ''Invalid rarity'') else Inr ())"

text \<open>
  \<^verbatim>\<open>model_dump()\<close>: the dictionary of all declared fields, an unset optional field as
  \<^verbatim>\<open>None\<close>.
\<close>

definition opt_val :: "('a \<Rightarrow> val) \<Rightarrow> 'a option \<Rightarrow> val" where
  "opt_val f x = (case x of None \<Rightarrow> VNone | Some v \<Rightarrow> f v)"

definition CharacterCreate_model_dump :: "CharacterCreate \<Rightarrow> doc" where
  "CharacterCreate_model_dump self =
     [''name'' \<mapsto> VStr (CharacterCreate.name self),
      ''rarity'' \<mapsto> VStr (CharacterCreate.rarity self),
      ''nation_code'' \<mapsto> opt_val VStr (nation_code self),
      ''role'' \<mapsto> opt_val VStr (role self),
      ''bio'' \<mapsto> opt_val VStr (bio self),
      ''image_url'' \<mapsto> opt_val VUrl (CharacterCreate.image_url self),
      ''palette'' \<mapsto> opt_val (\<lambda>m. VDict (map (\<lambda>(k, v). (k, VStr v)) m)) (palette self),
      ''stats'' \<mapsto> opt_val (\<lambda>m. VDict (map (\<lambda>(k, v). (k, VInt v)) m)) (stats self),
      ''tags'' \<mapsto> VList (map VStr (CharacterCreate.tags self))]"

definition ItemCreate_model_dump :: "ItemCreate \<Rightarrow> doc" where
  "ItemCreate_model_dump self =
     [''name'' \<mapsto> VStr (ItemCreate.name self),
      ''type'' \<mapsto> VStr (type self),
      ''rarity'' \<mapsto> VStr (ItemCreate.rarity self),
      ''effect'' \<mapsto> opt_val VStr (effect self),
      ''image_url'' \<mapsto> opt_val VUrl (ItemCreate.image_url self),
      ''tags'' \<mapsto> VList (map VStr (ItemCreate.tags self))]"

subsection \<open>Binding a request body to a model\<close>

text \<open>
  Before a handler runs, the framework binds the JSON body to the declared model. Checking
  one field's value against its type is the framework's work; its outcome per field is
  the input here: the field is missing from the body, or given with a value of the
  declared type, or given with a value that the type refuses. The declarations of
  lines 89 to 110 decide the rest: \<^verbatim>\<open>name\<close>, \<^verbatim>\<open>rarity\<close> (and an item's \<^verbatim>\<open>type\<close>) are
  required, the optional fields default to \<^verbatim>\<open>None\<close>, and \<^verbatim>\<open>tags\<close> defaults to
  \<^verbatim>\<open>[]\<close>.
\<close>

datatype 'a field = Missing | Given 'a | Invalid

record CharacterBody =
  name :: "string field"
  rarity :: "string field"
  nation_code :: "string option field"
  role :: "string option field"
  bio :: "string option field"
  image_url :: "string option field"
  palette :: "(string \<times> string) list option field"
  stats :: "(string \<times> int) list option field"
  tags :: "string list field"

record ItemBody =
  name :: "string field"
  type :: "string field"
  rarity :: "string field"
  effect :: "string option field"
  image_url :: "string option field"
  tags :: "string list field"

definition required :: "'a field \<Rightarrow> exn + 'a" where
  "required f = (case f of Given v \<Rightarrow> Inr v | _ \<Rightarrow> Inl RequestValidationError)"

definition with_default :: "'a \<Rightarrow> 'a field \<Rightarrow> exn + 'a" where
  "with_default d f =
     (case f of Missing \<Rightarrow> Inr d | Given v \<Rightarrow> Inr v | Invalid \<Rightarrow> Inl RequestValidationError)"

definition bind_CharacterCreate :: "CharacterBody \<Rightarrow> exn + CharacterCreate" where
  "bind_CharacterCreate body =
     (case (required (CharacterBody.name body),
            required (CharacterBody.rarity body),
            with_default None (CharacterBody.nation_code body),
            with_default None (CharacterBody.role body),
            with_default None (CharacterBody.bio body),
            with_default None (CharacterBody.image_url body),
            with_default None (CharacterBody.palette body),
            with_default None (CharacterBody.stats body),
            with_default [] (CharacterBody.tags body)) of
        (Inr n, Inr r, Inr nc, Inr ro, Inr b, Inr u, Inr p, Inr st, Inr t) \<Rightarrow>
          Inr \<lparr>CharacterCreate.name = n, rarity = r, nation_code = nc, role = ro, bio = b,
               image_url = u, palette = p, stats = st, tags = t\<rparr>
      | _ \<Rightarrow> Inl RequestValidationError)"

definition bind_ItemCreate :: "ItemBody \<Rightarrow> exn + ItemCreate" where
  "bind_ItemCreate body =
     (case (required (ItemBody.name body),
            required (ItemBody.type body),
            required (ItemBody.rarity body),
            with_default None (ItemBody.effect body),
            with_default None (ItemBody.image_url body),
            with_default [] (ItemBody.tags body)) of
        (Inr n, Inr ty, Inr r, Inr e, Inr u, Inr t) \<Rightarrow>
          Inr \<lparr>ItemCreate.name = n, type = ty, rarity = r, effect = e, image_url = u,
               tags = t\<rparr>
      | _ \<Rightarrow> Inl RequestValidationError)"

section \<open>The list and create handlers\<close>

text \<open>
  The handlers call \<^verbatim>\<open>create_document\<close> and \<^verbatim>\<open>get_documents\<close> of the module
  \<^verbatim>\<open>database\<close>, which act on the store. A handler is a function of the store's state
  that returns a result or an exception together with the state it leaves behind; the
  two store operations are parameters of the handlers, as is Python's \<^verbatim>\<open>str\<close>.
\<close>

type_synonym ('a, 's) handler = "'s \<Rightarrow> (exn + 'a) \<times> 's"

record listing =
  items :: "doc list"

record created =
  id' :: string

text \<open>
  The loop body of lines 120 to 122:
  \<^verbatim>\<open>if "_id" in d: d["id"] = str(d.pop("_id"))\<close>.
\<close>

definition normalize_id :: "(val \<Rightarrow> string) \<Rightarrow> doc \<Rightarrow> doc" where
  "normalize_id str d =
     (case d ''_id'' of
        None \<Rightarrow> d
      | Some v \<Rightarrow> (d(''_id'' := None))(''id'' \<mapsto> VStr (str v)))"

definition list_characters ::
  "(val \<Rightarrow> string) \<Rightarrow> (string \<Rightarrow> int \<Rightarrow> (doc list, 's) handler) \<Rightarrow> int option
     \<Rightarrow> (listing, 's) handler" where
  "list_characters str get_documents limit s =
     (let limit = (case limit of None \<Rightarrow> 100 | Some l \<Rightarrow> l)
      in case get_documents ''character'' limit s of
           (Inl e, s') \<Rightarrow> (Inl e, s')
         | (Inr docs, s') \<Rightarrow> (Inr \<lparr>items = map (normalize_id str) docs\<rparr>, s'))"

definition create_character ::
  "(string \<Rightarrow> doc \<Rightarrow> (string, 's) handler) \<Rightarrow> CharacterCreate \<Rightarrow> (created, 's) handler" where
  "create_character create_document payload s =
     (case CharacterCreate_validate_rarity payload of
        Inl e \<Rightarrow> (Inl e, s)
      | Inr u \<Rightarrow>
          (case create_document ''character'' (CharacterCreate_model_dump payload) s of
             (Inl e, s') \<Rightarrow> (Inl e, s')
           | (Inr new_id, s') \<Rightarrow> (Inr \<lparr>id' = new_id\<rparr>, s')))"

definition list_items ::
  "(val \<Rightarrow> string) \<Rightarrow> (string \<Rightarrow> int \<Rightarrow> (doc list, 's) handler) \<Rightarrow> int option
     \<Rightarrow> (listing, 's) handler" where
  "list_items str get_documents limit s =
     (let limit = (case limit of None \<Rightarrow> 100 | Some l \<Rightarrow> l)
      in case get_documents ''item'' limit s of
           (Inl e, s') \<Rightarrow> (Inl e, s')
         | (Inr docs, s') \<Rightarrow> (Inr \<lparr>items = map (normalize_id str) docs\<rparr>, s'))"

definition create_item ::
  "(string \<Rightarrow> doc \<Rightarrow> (string, 's) handler) \<Rightarrow> ItemCreate \<Rightarrow> (created, 's) handler" where
  "create_item create_document payload s =
     (case ItemCreate_validate_rarity payload of
        Inl e \<Rightarrow> (Inl e, s)
      | Inr u \<Rightarrow>
          (case create_document ''item'' (ItemCreate_model_dump payload) s of
             (Inl e, s') \<Rightarrow> (Inl e, s')
           | (Inr new_id, s') \<Rightarrow> (Inr \<lparr>id' = new_id\<rparr>, s')))"

text \<open>The POST routes as the framework runs them: bind the body, then call the handler.\<close>

definition post_api_characters ::
  "(string \<Rightarrow> doc \<Rightarrow> (string, 's) handler) \<Rightarrow> CharacterBody \<Rightarrow> (created, 's) handler" where
  "post_api_characters create_document body s =
     (case bind_CharacterCreate body of
        Inl e \<Rightarrow> (Inl e, s)
      | Inr payload \<Rightarrow> create_character create_document payload s)"

definition post_api_items ::
  "(string \<Rightarrow> doc \<Rightarrow> (string, 's) handler) \<Rightarrow> ItemBody \<Rightarrow> (created, 's) handler" where
  "post_api_items create_document body s =
     (case bind_ItemCreate body of
        Inl e \<Rightarrow> (Inl e, s)
      | Inr payload \<Rightarrow> create_item create_document payload s)"

section \<open>The document store\<close>

text \<open>
  Modelled from the spec: the state of the document store behind the missing module
  \<^verbatim>\<open>database\<close>. It has a connection that is available or not, the records of each
  collection in storage order, and the next identifier to assign.
\<close>

record store =
  connected :: bool
  documents :: "string \<Rightarrow> doc list"
  next_oid :: nat

text \<open>
  Modelled from the spec: the text of a store-assigned identifier (the rendering of an
  \<^verbatim>\<open>ObjectId\<close>, missing with the store). The specification shows it as a 24-character
  identifier; here it is the identifier's 24 hexadecimal digits.
\<close>

definition hex_digit :: "nat \<Rightarrow> char" where
  "hex_digit d = ''0123456789abcdef'' ! d"

fun hex_digits :: "nat \<Rightarrow> nat \<Rightarrow> string" where
  "hex_digits 0 n = []"
| "hex_digits (Suc k) n = hex_digits k (n div 16) @ [hex_digit (n mod 16)]"

definition oid_text :: "nat \<Rightarrow> string" where
  "oid_text n = hex_digits 24 n"

text \<open>
  Modelled from the spec: \<^verbatim>\<open>create_document\<close> of the missing module \<^verbatim>\<open>database\<close>.
  It inserts the fields \<open>data\<close> as one new record into the named collection, under a fresh
  store-assigned identifier in the native field \<^verbatim>\<open>_id\<close>, and returns that identifier
  as text; it fails when the store connection is unavailable (the specification gives
  no message for the failure; the one here is a placeholder).
\<close>

definition create_document :: "string \<Rightarrow> doc \<Rightarrow> (string, store) handler" where
  "create_document collection_name data s =
     (if \<not> connected s then (Inl (Raised (Exception ''Database not available'')), s)
      else
        let oid = next_oid s;
            new_record = data(''_id'' \<mapsto> VObjectId oid)
        in (Inr (oid_text oid),
            s\<lparr>documents := (documents s)
                 (collection_name := documents s collection_name @ [new_record]),
              next_oid := Suc oid\<rparr>))"

text \<open>
  Modelled from the spec: \<^verbatim>\<open>get_documents\<close> of the missing module \<^verbatim>\<open>database\<close>.
  It returns up to \<open>limit\<close> records of the named collection in storage order, each with
  the native identifier field; it fails when the store is unreachable.
\<close>

definition get_documents :: "string \<Rightarrow> int \<Rightarrow> (doc list, store) handler" where
  "get_documents collection_name limit s =
     (if \<not> connected s then (Inl (Raised (Exception ''Database not available'')), s)
      else (Inr (take (nat limit) (documents s collection_name)), s))"

text \<open>
  Modelled from the spec: an identifier is rendered as text the same way on creation and
  on read, so Python's \<^verbatim>\<open>str\<close>, which the list handlers apply to the native identifier,
  gives the store's text for it.
\<close>

definition renders_oid :: "(val \<Rightarrow> string) \<Rightarrow> bool" where
  "renders_oid str = (\<forall>n. str (VObjectId n) = oid_text n)"

section \<open>Properties of the diagnostic route\<close>

text \<open>
  Claim C4. The route \<^verbatim>\<open>/test\<close> is total and never answers with an error status: in
  every state of its surroundings (store module absent, import failing otherwise,
  connection not initialised, connection present with a failing query, healthy store,
  environment variables set or unset) \<open>test_database\<close> returns a response, the status is
  200, and the failure mode is rendered as the status text of the field \<open>database\<close>;
  the two environment fields say whether each variable is set.
\<close>

theorem test_database_never_raises:
  "\<exists>r. test_database env = Inr r \<and> http_status (test_database env) = 200 \<and>
       database r =
         (case import_db env of
            Inl e \<Rightarrow>
              if is_ImportError e
              then cross_mark @ '' Database module not found (run enable-database first)''
              else cross_mark @ '' Error: '' @ take 50 (str_exn e)
          | Inr None \<Rightarrow> warning_sign @ ''  Available but not initialized''
          | Inr (Some db) \<Rightarrow>
              (case list_collection_names db of
                 Inl e \<Rightarrow> warning_sign @ ''  Connected but Error: '' @ take 50 (str_exn e)
               | Inr cs \<Rightarrow> check_mark @ '' Connected & Working'')) \<and>
       database_url r = Some (if env_set env ''DATABASE_URL'' then check_mark @ '' Set''
                              else cross_mark @ '' Not Set'') \<and>
       database_name r = Some (if env_set env ''DATABASE_NAME'' then check_mark @ '' Set''
                               else cross_mark @ '' Not Set'')"
  by (simp add: test_database_def probe_connection_def Let_def
        split: sum.split option.split)

text \<open>
  Claim C8. The diagnostic response reports at most the first 10 collection names: when
  the connection lists the names \<open>cs\<close>, the field \<open>collections\<close> is \<open>take 10 cs\<close>; it has
  \<open>min (length cs) 10\<close> entries and is a prefix of \<open>cs\<close>.
\<close>

theorem test_database_collections:
  assumes "import_db env = Inr (Some db)" and "list_collection_names db = Inr cs"
  shows "\<exists>r. test_database env = Inr r \<and> collections r = take 10 cs \<and>
             length (collections r) = min (length cs) 10 \<and> prefix (collections r) cs"
  using assms
  by (simp add: test_database_def probe_connection_def Let_def take_is_prefix min.commute)

theorem test_database_collections_witness:
  "\<exists>r. test_database
          \<lparr>import_db = Inr (Some \<lparr>db_name = Some ''art'',
              list_collection_names = Inr [''c01'', ''c02'', ''c03'', ''c04'', ''c05'', ''c06'',
                ''c07'', ''c08'', ''c09'', ''c10'', ''c11'', ''c12'']\<rparr>),
            getenv = (\<lambda>k. None)\<rparr> = Inr r \<and>
        collections r = [''c01'', ''c02'', ''c03'', ''c04'', ''c05'', ''c06'',
                ''c07'', ''c08'', ''c09'', ''c10'']"
  using test_database_collections
    [of "\<lparr>import_db = Inr (Some \<lparr>db_name = Some ''art'',
              list_collection_names = Inr [''c01'', ''c02'', ''c03'', ''c04'', ''c05'', ''c06'',
                ''c07'', ''c08'', ''c09'', ''c10'', ''c11'', ''c12'']\<rparr>),
            getenv = (\<lambda>k. None)\<rparr>"
        "\<lparr>db_name = Some ''art'',
              list_collection_names = Inr [''c01'', ''c02'', ''c03'', ''c04'', ''c05'', ''c06'',
                ''c07'', ''c08'', ''c09'', ''c10'', ''c11'', ''c12'']\<rparr>"
        "[''c01'', ''c02'', ''c03'', ''c04'', ''c05'', ''c06'',
                ''c07'', ''c08'', ''c09'', ''c10'', ''c11'', ''c12'']"]
  by auto

section \<open>Rejection of an invalid rarity\<close>

text \<open>
  Claim C1. A Character or Item payload whose \<open>rarity\<close> is not one of Common, Rare, Epic,
  Legendary, Champion is rejected with \<open>HTTPException 400\<close> (status 400), whatever the
  store operation \<open>cd\<close> passed for \<^verbatim>\<open>create_document\<close> would do: the result does not
  depend on \<open>cd\<close> and the store's state is the one before the call, so
  \<^verbatim>\<open>create_document\<close> is not invoked and nothing is persisted. The rejection differs
  from a shape-validation failure, which is the binding step's \<open>RequestValidationError\<close>
  with status 422.
\<close>

theorem invalid_rarity_rejected:
  "(CharacterCreate.rarity p \<notin> RARITIES \<longrightarrow>
       create_character cd p s = (Inl (HTTPException 400 ''Invalid rarity''), s) \<and>
       http_status (fst (create_character cd p s)) = 400 \<and>
       (bind_CharacterCreate cb = Inr p \<longrightarrow>
          post_api_characters cd cb s = (Inl (HTTPException 400 ''Invalid rarity''), s))) \<and>
   (ItemCreate.rarity q \<notin> RARITIES \<longrightarrow>
       create_item cd q s = (Inl (HTTPException 400 ''Invalid rarity''), s) \<and>
       http_status (fst (create_item cd q s)) = 400 \<and>
       (bind_ItemCreate ib = Inr q \<longrightarrow>
          post_api_items cd ib s = (Inl (HTTPException 400 ''Invalid rarity''), s))) \<and>
   (\<forall>e. bind_CharacterCreate cb = Inl e \<longrightarrow>
       post_api_characters cd cb s = (Inl RequestValidationError, s) \<and>
       http_status (fst (post_api_characters cd cb s)) = 422) \<and>
   (\<forall>e. bind_ItemCreate ib = Inl e \<longrightarrow>
       post_api_items cd ib s = (Inl RequestValidationError, s) \<and>
       http_status (fst (post_api_items cd ib s)) = 422)"
  by (auto simp: create_character_def create_item_def CharacterCreate_validate_rarity_def
      ItemCreate_validate_rarity_def post_api_characters_def post_api_items_def
      bind_CharacterCreate_def bind_ItemCreate_def split: sum.splits prod.splits)


theorem invalid_rarity_rejected_witness:
  "''Mythic'' \<notin> RARITIES \<and>
   create_character (\<lambda>c d (n::nat). (Inr ''never'', Suc n))
     \<lparr>CharacterCreate.name = ''Ann'', rarity = ''Mythic'', nation_code = None, role = None,
      bio = None, image_url = None, palette = None, stats = None, tags = []\<rparr> 0
     = (Inl (HTTPException 400 ''Invalid rarity''), 0) \<and>
   create_item (\<lambda>c d (n::nat). (Inr ''never'', Suc n))
     \<lparr>ItemCreate.name = ''Sword'', type = ''Weapon'', rarity = ''epic'', effect = None,
      image_url = None, tags = []\<rparr> 0
     = (Inl (HTTPException 400 ''Invalid rarity''), 0)"
  using invalid_rarity_rejected
    [of "\<lparr>CharacterCreate.name = ''Ann'', rarity = ''Mythic'', nation_code = None, role = None,
          bio = None, image_url = None, palette = None, stats = None, tags = []\<rparr>"
        "\<lambda>c d (n::nat). (Inr ''never'', Suc n)" 0 _
        "\<lparr>ItemCreate.name = ''Sword'', type = ''Weapon'', rarity = ''epic'', effect = None,
          image_url = None, tags = []\<rparr>"]
  by (simp add: RARITIES_def)

section \<open>Identifier normalisation on read\<close>

lemma normalize_id_absent:
  "d ''_id'' = None \<Longrightarrow> normalize_id str d = d"
  by (simp add: normalize_id_def)

lemma normalize_id_present:
  "d ''_id'' = Some v \<Longrightarrow> normalize_id str d = (d(''_id'' := None))(''id'' \<mapsto> VStr (str v))"
  by (simp add: normalize_id_def)

lemma normalize_id_hides_native:
  "normalize_id str d ''_id'' = None"
  by (simp add: normalize_id_def split: option.split)

lemma normalize_id_other:
  "k \<noteq> ''_id'' \<Longrightarrow> k \<noteq> ''id'' \<Longrightarrow> normalize_id str d k = d k"
  by (simp add: normalize_id_def split: option.split)

lemma normalize_id_fields:
  "d ''_id'' = Some v \<Longrightarrow> dom (normalize_id str d) \<inter> {''_id'', ''id''} = {''id''}"
  by (auto simp: normalize_id_def split: if_splits)

text \<open>
  Claim C3. Both list handlers return no record that exposes the native field \<^verbatim>\<open>_id\<close>;
  and when every record delivered by \<^verbatim>\<open>get_documents\<close> carries \<^verbatim>\<open>_id\<close> (the store's
  contract), each returned record is the delivered one with \<^verbatim>\<open>_id\<close> removed and the
  field \<^verbatim>\<open>id\<close> set to the same identifier rendered as text by \<open>str\<close>, so that \<^verbatim>\<open>id\<close> is
  its one identifier field.
\<close>

theorem list_normalizes_identifiers:
  "(gd ''character'' (case limit of None \<Rightarrow> 100 | Some l \<Rightarrow> l) s = (Inr docs, s') \<longrightarrow>
      (\<exists>r. list_characters str gd limit s = (Inr r, s') \<and>
           (\<forall>d' \<in> set (items r). d' ''_id'' = None) \<and>
           ((\<forall>d \<in> set docs. d ''_id'' \<noteq> None) \<longrightarrow>
              list_all2 (\<lambda>d d'. \<exists>v. d ''_id'' = Some v \<and>
                   d' = (d(''_id'' := None))(''id'' \<mapsto> VStr (str v)) \<and>
                   dom d' \<inter> {''_id'', ''id''} = {''id''}) docs (items r)))) \<and>
   (gd ''item'' (case limit of None \<Rightarrow> 100 | Some l \<Rightarrow> l) s = (Inr docs, s') \<longrightarrow>
      (\<exists>r. list_items str gd limit s = (Inr r, s') \<and>
           (\<forall>d' \<in> set (items r). d' ''_id'' = None) \<and>
           ((\<forall>d \<in> set docs. d ''_id'' \<noteq> None) \<longrightarrow>
              list_all2 (\<lambda>d d'. \<exists>v. d ''_id'' = Some v \<and>
                   d' = (d(''_id'' := None))(''id'' \<mapsto> VStr (str v)) \<and>
                   dom d' \<inter> {''_id'', ''id''} = {''id''}) docs (items r))))"
proof -
  have hidden: "\<forall>d' \<in> set (map (normalize_id str) docs). d' ''_id'' = None"
    by (simp add: normalize_id_hides_native)
  have rel: "list_all2 (\<lambda>d d'. \<exists>v. d ''_id'' = Some v \<and>
                   d' = (d(''_id'' := None))(''id'' \<mapsto> VStr (str v)) \<and>
                   dom d' \<inter> {''_id'', ''id''} = {''id''}) docs (map (normalize_id str) docs)"
    if all: "\<forall>d \<in> set docs. d ''_id'' \<noteq> None"
  proof (simp only: list_all2_map2, rule list_all2_same [THEN iffD2], intro ballI)
    fix d assume "d \<in> set docs"
    with all obtain v where v: "d ''_id'' = Some v" by auto
    have "normalize_id str d = (d(''_id'' := None))(''id'' \<mapsto> VStr (str v))"
      using v by (rule normalize_id_present)
    moreover have "dom (normalize_id str d) \<inter> {''_id'', ''id''} = {''id''}"
      using v by (rule normalize_id_fields)
    ultimately show "\<exists>v. d ''_id'' = Some v \<and>
        normalize_id str d = (d(''_id'' := None))(''id'' \<mapsto> VStr (str v)) \<and>
        dom (normalize_id str d) \<inter> {''_id'', ''id''} = {''id''}"
      using v by blast
  qed
  show ?thesis
    using hidden rel by (simp add: list_characters_def list_items_def)
qed

theorem list_normalizes_identifiers_witness:
  "\<exists>r. list_characters (\<lambda>v. case v of VObjectId n \<Rightarrow> oid_text n | _ \<Rightarrow> [])
          (\<lambda>c l (u::unit). (Inr [[''_id'' \<mapsto> VObjectId 10, ''name'' \<mapsto> VStr ''Ann''],
                                   [''_id'' \<mapsto> VObjectId 11, ''id'' \<mapsto> VInt 7]], u))
          None () = (Inr r, ()) \<and>
        length (items r) = 2 \<and>
        (items r ! 0) ''_id'' = None \<and>
        (items r ! 0) ''id'' = Some (VStr ''00000000000000000000000a'') \<and>
        (items r ! 0) ''name'' = Some (VStr ''Ann'') \<and>
        (items r ! 1) ''_id'' = None \<and>
        (items r ! 1) ''id'' = Some (VStr ''00000000000000000000000b'')"
proof -
  let ?str = "\<lambda>v. case v of VObjectId n \<Rightarrow> oid_text n | _ \<Rightarrow> []"
  let ?d0 = "[''_id'' \<mapsto> VObjectId 10, ''name'' \<mapsto> VStr ''Ann'']"
  let ?d1 = "[''_id'' \<mapsto> VObjectId 11, ''id'' \<mapsto> VInt 7]"
  let ?gd = "\<lambda>(c::string) (l::int) (u::unit). (Inr [?d0, ?d1] :: exn + doc list, u)"
  have t10: "oid_text 10 = ''00000000000000000000000a''"
    by code_simp
  have t11: "oid_text 11 = ''00000000000000000000000b''"
    by code_simp
  have c: "\<forall>d \<in> set [?d0, ?d1]. d ''_id'' \<noteq> None" by simp
  from list_normalizes_identifiers [of ?gd None "()" "[?d0, ?d1]" "()" ?str] c
  obtain r where r: "list_characters ?str ?gd None () = (Inr r, ())"
    and rel: "list_all2 (\<lambda>d d'. \<exists>v. d ''_id'' = Some v \<and>
                   d' = (d(''_id'' := None))(''id'' \<mapsto> VStr (?str v)) \<and>
                   dom d' \<inter> {''_id'', ''id''} = {''id''}) [?d0, ?d1] (items r)"
    by blast
  from rel obtain y0 y1 where ys: "items r = [y0, y1]"
    and y0: "y0 = (?d0(''_id'' := None))(''id'' \<mapsto> VStr (oid_text 10))"
    and y1: "y1 = (?d1(''_id'' := None))(''id'' \<mapsto> VStr (oid_text 11))"
    by (auto simp: list_all2_Cons1)
  show ?thesis
    by (rule exI [of _ r]) (simp add: r ys y0 y1 t10 t11)
qed

text \<open>
  Claim C10. Normalisation depends on the presence of \<^verbatim>\<open>_id\<close>: a record delivered by
  \<^verbatim>\<open>get_documents\<close> without the field \<^verbatim>\<open>_id\<close> is returned by both list handlers
  unchanged, with no field \<^verbatim>\<open>id\<close> added and no other field modified; a record that has
  neither \<^verbatim>\<open>_id\<close> nor \<^verbatim>\<open>id\<close> is returned with no identifier field at all.
\<close>

theorem records_without_native_id_unchanged:
  "(d ''_id'' = None \<longrightarrow> normalize_id str d = d) \<and>
   (d ''_id'' = None \<and> d ''id'' = None \<longrightarrow> dom (normalize_id str d) \<inter> {''_id'', ''id''} = {}) \<and>
   (gd ''character'' (case limit of None \<Rightarrow> 100 | Some l \<Rightarrow> l) s = (Inr docs, s') \<longrightarrow>
      (\<exists>r. list_characters str gd limit s = (Inr r, s') \<and> length (items r) = length docs \<and>
           (\<forall>i < length docs. (docs ! i) ''_id'' = None \<longrightarrow> items r ! i = docs ! i))) \<and>
   (gd ''item'' (case limit of None \<Rightarrow> 100 | Some l \<Rightarrow> l) s = (Inr docs, s') \<longrightarrow>
      (\<exists>r. list_items str gd limit s = (Inr r, s') \<and> length (items r) = length docs \<and>
           (\<forall>i < length docs. (docs ! i) ''_id'' = None \<longrightarrow> items r ! i = docs ! i)))"
  by (auto simp: list_characters_def list_items_def normalize_id_absent)

theorem records_without_native_id_unchanged_witness:
  "\<exists>r. list_items (\<lambda>v. [])
          (\<lambda>c l (u::unit). (Inr [[''name'' \<mapsto> VStr ''Sword''],
                                   [''_id'' \<mapsto> VObjectId 3]], u))
          (Some 5) () = (Inr r, ()) \<and>
        length (items r) = 2 \<and>
        items r ! 0 = [''name'' \<mapsto> VStr ''Sword''] \<and>
        (items r ! 0) ''id'' = None"
  using records_without_native_id_unchanged
    [of "[''name'' \<mapsto> VStr ''Sword'']" "\<lambda>v. []"
        "\<lambda>c l (u::unit). (Inr [[''name'' \<mapsto> VStr ''Sword''],
                                   [''_id'' \<mapsto> VObjectId 3]], u)"
        "Some 5" "()"
        "[[''name'' \<mapsto> VStr ''Sword''], [''_id'' \<mapsto> VObjectId 3]]" "()"]
  by auto

section \<open>The store: identifiers, insertion and retrieval\<close>

lemma create_document_connected:
  "connected s \<Longrightarrow>
   create_document c data s =
     (Inr (oid_text (next_oid s)),
      s\<lparr>documents := (documents s)(c := documents s c @ [data(''_id'' \<mapsto> VObjectId (next_oid s))]),
        next_oid := Suc (next_oid s)\<rparr>)"
  by (simp add: create_document_def Let_def)

lemma get_documents_connected:
  "connected s \<Longrightarrow> get_documents c l s = (Inr (take (nat l) (documents s c)), s)"
  by (simp add: get_documents_def)

lemma get_documents_length:
  "get_documents c l s = (Inr docs, s') \<Longrightarrow> length docs \<le> nat l"
  by (auto simp: get_documents_def split: if_splits)

lemma length_hex_digits: "length (hex_digits k n) = k"
  by (induction k arbitrary: n) simp_all

lemma oid_text_length: "length (oid_text n) = 24"
  by (simp add: oid_text_def length_hex_digits)

lemma oid_text_nonempty: "oid_text n \<noteq> []"
  using oid_text_length [of n] by auto

lemma hex_alphabet_distinct: "distinct ''0123456789abcdef''"
  by code_simp

lemma hex_digit_inj: "a < 16 \<Longrightarrow> b < 16 \<Longrightarrow> hex_digit a = hex_digit b \<Longrightarrow> a = b"
proof -
  have l: "length ''0123456789abcdef'' = 16" by simp
  show "a < 16 \<Longrightarrow> b < 16 \<Longrightarrow> hex_digit a = hex_digit b \<Longrightarrow> a = b"
    unfolding hex_digit_def using hex_alphabet_distinct l nth_eq_iff_index_eq by metis
qed

lemma oid_text_unfold: "oid_text n = hex_digits 23 (n div 16) @ [hex_digit (n mod 16)]"
proof -
  have "oid_text n = hex_digits (Suc 23) n"
    unfolding oid_text_def by (rule arg_cong [where f = "\<lambda>k. hex_digits k n"]) simp
  then show ?thesis by (simp only: hex_digits.simps)
qed

lemma mod16_Suc: "n mod 16 \<noteq> Suc n mod 16"
proof (cases "Suc (n mod 16) = 16")
  case True
  have "Suc n mod 16 = (if Suc (n mod 16) = 16 then 0 else Suc (n mod 16))" by (rule mod_Suc)
  with True have "Suc n mod 16 = 0" by simp
  moreover from True have "n mod 16 = 15" by linarith
  ultimately show ?thesis by linarith
next
  case False
  have "Suc n mod 16 = (if Suc (n mod 16) = 16 then 0 else Suc (n mod 16))" by (rule mod_Suc)
  with False have "Suc n mod 16 = Suc (n mod 16)" by simp
  then show ?thesis by linarith
qed

lemma oid_text_Suc: "oid_text n \<noteq> oid_text (Suc n)"
proof
  assume "oid_text n = oid_text (Suc n)"
  then have "hex_digit (n mod 16) = hex_digit (Suc n mod 16)"
    by (simp only: oid_text_unfold append1_eq_conv)
  moreover have "n mod 16 < 16" and "Suc n mod 16 < 16" by simp_all
  ultimately have "n mod 16 = Suc n mod 16" by (rule hex_digit_inj [rotated 2])
  with mod16_Suc show False by blast
qed

lemma stored_then_listed:
  assumes str: "renders_oid str" and con: "connected s"
    and cr: "create_document c data s = (Inr t, s')"
    and lim: "int (length (documents s' c)) \<le> limit"
  shows "\<exists>r. get_documents c limit s' = (Inr r, s') \<and>
          (\<exists>d \<in> set (map (normalize_id str) r).
             d ''id'' = Some (VStr t) \<and> d ''_id'' = None \<and>
             (\<forall>k. k \<noteq> ''id'' \<and> k \<noteq> ''_id'' \<longrightarrow> d k = data k))"
proof -
  let ?new = "data(''_id'' \<mapsto> VObjectId (next_oid s))"
  from con cr have t: "t = oid_text (next_oid s)"
    and s': "s' = s\<lparr>documents := (documents s)(c := documents s c @ [?new]),
                    next_oid := Suc (next_oid s)\<rparr>"
    by (simp_all add: create_document_connected)
  from s' con have con': "connected s'" by simp
  from s' have docs: "documents s' c = documents s c @ [?new]" by simp
  from lim have "take (nat limit) (documents s' c) = documents s' c" by simp
  with con' have g: "get_documents c limit s' = (Inr (documents s' c), s')"
    by (simp add: get_documents_connected)
  from str have "str (VObjectId (next_oid s)) = t"
    by (simp add: renders_oid_def t)
  then have n: "normalize_id str ?new = (?new(''_id'' := None))(''id'' \<mapsto> VStr t)"
    by (simp add: normalize_id_def)
  have "normalize_id str ?new \<in> set (map (normalize_id str) (documents s' c))"
    by (simp add: docs)
  moreover have "normalize_id str ?new ''id'' = Some (VStr t)"
    and "normalize_id str ?new ''_id'' = None"
    and "\<forall>k. k \<noteq> ''id'' \<and> k \<noteq> ''_id'' \<longrightarrow> normalize_id str ?new k = data k"
    by (simp_all add: n)
  ultimately show ?thesis using g by blast
qed

section \<open>The limit of a listing\<close>

text \<open>
  Claim C5. For both list handlers the \<open>limit\<close> parameter bounds the number of records
  returned, and an omitted \<open>limit\<close> is 100: a listing that returns has at most \<open>limit\<close>
  records; with the store available it returns the first \<open>limit\<close> records of the
  collection, normalised, and \<open>limit = 0\<close> gives the empty sequence with status 200, not
  an error.
\<close>

theorem limit_bounds_listing:
  "list_characters str get_documents None s = list_characters str get_documents (Some 100) s \<and>
   list_items str get_documents None s = list_items str get_documents (Some 100) s \<and>
   (\<forall>r s'. list_characters str get_documents limit s = (Inr r, s') \<longrightarrow>
       length (items r) \<le> nat (case limit of None \<Rightarrow> 100 | Some l \<Rightarrow> l)) \<and>
   (\<forall>r s'. list_items str get_documents limit s = (Inr r, s') \<longrightarrow>
       length (items r) \<le> nat (case limit of None \<Rightarrow> 100 | Some l \<Rightarrow> l)) \<and>
   (connected s \<longrightarrow>
       list_characters str get_documents limit s =
         (Inr \<lparr>items = map (normalize_id str)
            (take (nat (case limit of None \<Rightarrow> 100 | Some l \<Rightarrow> l)) (documents s ''character''))\<rparr>, s) \<and>
       list_items str get_documents limit s =
         (Inr \<lparr>items = map (normalize_id str)
            (take (nat (case limit of None \<Rightarrow> 100 | Some l \<Rightarrow> l)) (documents s ''item''))\<rparr>, s) \<and>
       list_characters str get_documents (Some 0) s = (Inr \<lparr>items = []\<rparr>, s) \<and>
       list_items str get_documents (Some 0) s = (Inr \<lparr>items = []\<rparr>, s) \<and>
       http_status (fst (list_characters str get_documents (Some 0) s)) = 200 \<and>
       http_status (fst (list_items str get_documents (Some 0) s)) = 200)"
proof (intro conjI allI impI)
  fix r s'
  assume "list_characters str get_documents limit s = (Inr r, s')"
  then show "length (items r) \<le> nat (case limit of None \<Rightarrow> 100 | Some l \<Rightarrow> l)"
    by (auto simp: list_characters_def Let_def split: prod.splits sum.splits
          dest: get_documents_length)
next
  fix r s'
  assume "list_items str get_documents limit s = (Inr r, s')"
  then show "length (items r) \<le> nat (case limit of None \<Rightarrow> 100 | Some l \<Rightarrow> l)"
    by (auto simp: list_items_def Let_def split: prod.splits sum.splits
          dest: get_documents_length)
qed (simp_all add: list_characters_def list_items_def get_documents_connected)

theorem limit_bounds_listing_witness:
  "\<exists>r. list_items (\<lambda>v. [])
          get_documents (Some 2)
          \<lparr>connected = True,
           documents = (\<lambda>c. if c = ''item''
             then [[''_id'' \<mapsto> VObjectId 0], [''_id'' \<mapsto> VObjectId 1], [''_id'' \<mapsto> VObjectId 2]]
             else []),
           next_oid = 3\<rparr> =
        (Inr r, \<lparr>connected = True,
           documents = (\<lambda>c. if c = ''item''
             then [[''_id'' \<mapsto> VObjectId 0], [''_id'' \<mapsto> VObjectId 1], [''_id'' \<mapsto> VObjectId 2]]
             else []),
           next_oid = 3\<rparr>) \<and> length (items r) = 2"
proof -
  let ?s = "\<lparr>connected = True,
           documents = (\<lambda>c. if c = ''item''
             then [[''_id'' \<mapsto> VObjectId 0], [''_id'' \<mapsto> VObjectId 1], [''_id'' \<mapsto> VObjectId 2]]
             else []),
           next_oid = 3\<rparr>"
  have c: "connected ?s" by simp
  from limit_bounds_listing [where str = "\<lambda>v. []" and limit = "Some 2" and s = ?s] c
  have l: "list_items (\<lambda>v. []) get_documents (Some 2) ?s =
         (Inr \<lparr>items = map (normalize_id (\<lambda>v. []))
            (take (nat 2) (documents ?s ''item''))\<rparr>, ?s)"
    by simp
  show ?thesis
    unfolding l by simp
qed

section \<open>Creating a record and listing it\<close>

lemma create_character_valid:
  "CharacterCreate.rarity p \<in> RARITIES \<Longrightarrow>
   create_character cd p s =
     (case cd ''character'' (CharacterCreate_model_dump p) s of
        (Inl e, s') \<Rightarrow> (Inl e, s')
      | (Inr i, s') \<Rightarrow> (Inr \<lparr>id' = i\<rparr>, s'))"
  by (simp add: create_character_def CharacterCreate_validate_rarity_def)

lemma create_item_valid:
  "ItemCreate.rarity q \<in> RARITIES \<Longrightarrow>
   create_item cd q s =
     (case cd ''item'' (ItemCreate_model_dump q) s of
        (Inl e, s') \<Rightarrow> (Inl e, s')
      | (Inr i, s') \<Rightarrow> (Inr \<lparr>id' = i\<rparr>, s'))"
  by (simp add: create_item_def ItemCreate_validate_rarity_def)

lemma create_character_stored:
  "connected st \<Longrightarrow> CharacterCreate.rarity p \<in> RARITIES \<Longrightarrow>
   create_character create_document p st =
     (Inr \<lparr>id' = oid_text (next_oid st)\<rparr>,
      st\<lparr>documents := (documents st)(''character'' := documents st ''character'' @
             [(CharacterCreate_model_dump p)(''_id'' \<mapsto> VObjectId (next_oid st))]),
         next_oid := Suc (next_oid st)\<rparr>)"
  by (simp add: create_character_valid create_document_connected)

lemma create_item_stored:
  "connected st \<Longrightarrow> ItemCreate.rarity q \<in> RARITIES \<Longrightarrow>
   create_item create_document q st =
     (Inr \<lparr>id' = oid_text (next_oid st)\<rparr>,
      st\<lparr>documents := (documents st)(''item'' := documents st ''item'' @
             [(ItemCreate_model_dump q)(''_id'' \<mapsto> VObjectId (next_oid st))]),
         next_oid := Suc (next_oid st)\<rparr>)"
  by (simp add: create_item_valid create_document_connected)

lemma listed_after_insert:
  assumes "renders_oid str" and "connected st"
    and "create_document c data st = (Inr t, st')"
    and "int (length (documents st' c)) \<le> (case limit of None \<Rightarrow> 100 | Some l \<Rightarrow> l)"
  shows "c = ''character'' \<Longrightarrow>
           \<exists>r. list_characters str get_documents limit st' = (Inr r, st') \<and>
             (\<exists>d \<in> set (items r). d ''id'' = Some (VStr t) \<and> d ''_id'' = None \<and>
                (\<forall>k. k \<noteq> ''id'' \<and> k \<noteq> ''_id'' \<longrightarrow> d k = data k))"
    and "c = ''item'' \<Longrightarrow>
           \<exists>r. list_items str get_documents limit st' = (Inr r, st') \<and>
             (\<exists>d \<in> set (items r). d ''id'' = Some (VStr t) \<and> d ''_id'' = None \<and>
                (\<forall>k. k \<noteq> ''id'' \<and> k \<noteq> ''_id'' \<longrightarrow> d k = data k))"
proof -
  from stored_then_listed [OF assms]
  obtain r d where g: "get_documents c (case limit of None \<Rightarrow> 100 | Some l \<Rightarrow> l) st' = (Inr r, st')"
    and d: "d \<in> set (map (normalize_id str) r)" "d ''id'' = Some (VStr t)" "d ''_id'' = None"
       "\<forall>k. k \<noteq> ''id'' \<and> k \<noteq> ''_id'' \<longrightarrow> d k = data k"
    by blast
  show "c = ''character'' \<Longrightarrow>
           \<exists>r. list_characters str get_documents limit st' = (Inr r, st') \<and>
             (\<exists>d \<in> set (items r). d ''id'' = Some (VStr t) \<and> d ''_id'' = None \<and>
                (\<forall>k. k \<noteq> ''id'' \<and> k \<noteq> ''_id'' \<longrightarrow> d k = data k))"
    using g d by (intro exI [of _ "\<lparr>items = map (normalize_id str) r\<rparr>"])
      (auto simp: list_characters_def)
  show "c = ''item'' \<Longrightarrow>
           \<exists>r. list_items str get_documents limit st' = (Inr r, st') \<and>
             (\<exists>d \<in> set (items r). d ''id'' = Some (VStr t) \<and> d ''_id'' = None \<and>
                (\<forall>k. k \<noteq> ''id'' \<and> k \<noteq> ''_id'' \<longrightarrow> d k = data k))"
    using g d by (intro exI [of _ "\<lparr>items = map (normalize_id str) r\<rparr>"])
      (auto simp: list_items_def)
qed

lemma hex_digits_inj:
  "a < 16 ^ k \<Longrightarrow> b < 16 ^ k \<Longrightarrow> hex_digits k a = hex_digits k b \<Longrightarrow> a = b"
proof (induction k arbitrary: a b)
  case 0
  then show ?case by simp
next
  case (Suc k)
  from Suc.prems(1) have a: "a div 16 < 16 ^ k" by (simp add: less_mult_imp_div_less mult.commute)
  from Suc.prems(2) have b: "b div 16 < 16 ^ k" by (simp add: less_mult_imp_div_less mult.commute)
  from Suc.prems(3) have h: "hex_digits k (a div 16) = hex_digits k (b div 16)"
    and l: "hex_digit (a mod 16) = hex_digit (b mod 16)"
    by simp_all
  from a b h have "a div 16 = b div 16" by (rule Suc.IH)
  moreover have "a mod 16 = b mod 16"
    using l by (intro hex_digit_inj) simp_all
  ultimately show ?case by (metis div_mult_mod_eq)
qed

lemma oid_text_inj:
  "a < 16 ^ 24 \<Longrightarrow> b < 16 ^ 24 \<Longrightarrow> oid_text a = oid_text b \<Longrightarrow> a = b"
  unfolding oid_text_def by (rule hex_digits_inj)

lemma oid_text_0: "oid_text 0 = ''000000000000000000000000''"
  by code_simp

lemma oid_text_100: "oid_text 100 = ''000000000000000000000064''"
  by code_simp

text \<open>
  Claim C2, as amended. With the store available, \<open>create_character\<close> and \<open>create_item\<close>
  on a payload whose \<open>rarity\<close> is in the fixed enumeration persist the payload's fields
  through \<open>create_document\<close> as one new record and return the non-empty text \<open>t\<close> of the
  identifier the store assigned; and every subsequent list call over the same collection
  whose limit (100 when omitted) is at least the number of records in the collection
  includes a record that carries \<open>t\<close> under the field name \<^verbatim>\<open>id\<close>, together with the
  payload's fields.
\<close>

theorem create_then_list:
  assumes "renders_oid str" and "connected st"
  shows
   "(CharacterCreate.rarity p \<in> RARITIES \<longrightarrow>
      (\<exists>t st'. create_character create_document p st = (Inr \<lparr>id' = t\<rparr>, st') \<and>
         t \<noteq> [] \<and> t = oid_text (next_oid st) \<and>
         documents st' ''character'' = documents st ''character'' @
           [(CharacterCreate_model_dump p)(''_id'' \<mapsto> VObjectId (next_oid st))] \<and>
         (\<forall>limit. int (length (documents st' ''character''))
                    \<le> (case limit of None \<Rightarrow> 100 | Some l \<Rightarrow> l) \<longrightarrow>
            (\<exists>r. list_characters str get_documents limit st' = (Inr r, st') \<and>
               (\<exists>d \<in> set (items r). d ''id'' = Some (VStr t) \<and> d ''_id'' = None \<and>
                  (\<forall>k. k \<noteq> ''id'' \<and> k \<noteq> ''_id'' \<longrightarrow>
                     d k = CharacterCreate_model_dump p k)))))) \<and>
    (ItemCreate.rarity q \<in> RARITIES \<longrightarrow>
      (\<exists>t st'. create_item create_document q st = (Inr \<lparr>id' = t\<rparr>, st') \<and>
         t \<noteq> [] \<and> t = oid_text (next_oid st) \<and>
         documents st' ''item'' = documents st ''item'' @
           [(ItemCreate_model_dump q)(''_id'' \<mapsto> VObjectId (next_oid st))] \<and>
         (\<forall>limit. int (length (documents st' ''item''))
                    \<le> (case limit of None \<Rightarrow> 100 | Some l \<Rightarrow> l) \<longrightarrow>
            (\<exists>r. list_items str get_documents limit st' = (Inr r, st') \<and>
               (\<exists>d \<in> set (items r). d ''id'' = Some (VStr t) \<and> d ''_id'' = None \<and>
                  (\<forall>k. k \<noteq> ''id'' \<and> k \<noteq> ''_id'' \<longrightarrow>
                     d k = ItemCreate_model_dump q k))))))"
proof (intro conjI impI)
  assume v: "CharacterCreate.rarity p \<in> RARITIES"
  let ?data = "CharacterCreate_model_dump p"
  let ?t = "oid_text (next_oid st)"
  let ?st' = "st\<lparr>documents := (documents st)(''character'' := documents st ''character'' @
             [?data(''_id'' \<mapsto> VObjectId (next_oid st))]), next_oid := Suc (next_oid st)\<rparr>"
  have cr: "create_character create_document p st = (Inr \<lparr>id' = ?t\<rparr>, ?st')"
    using assms(2) v by (rule create_character_stored)
  have cd: "create_document ''character'' ?data st = (Inr ?t, ?st')"
    using assms(2) by (rule create_document_connected)
  have docs: "documents ?st' ''character'' = documents st ''character'' @
      [?data(''_id'' \<mapsto> VObjectId (next_oid st))]"
    by simp
  have ls: "\<forall>limit. int (length (documents ?st' ''character''))
                    \<le> (case limit of None \<Rightarrow> 100 | Some l \<Rightarrow> l) \<longrightarrow>
            (\<exists>r. list_characters str get_documents limit ?st' = (Inr r, ?st') \<and>
               (\<exists>d \<in> set (items r). d ''id'' = Some (VStr ?t) \<and> d ''_id'' = None \<and>
                  (\<forall>k. k \<noteq> ''id'' \<and> k \<noteq> ''_id'' \<longrightarrow> d k = ?data k)))"
    using listed_after_insert(1) [OF assms cd] by blast
  show "\<exists>t st'. create_character create_document p st = (Inr \<lparr>id' = t\<rparr>, st') \<and>
         t \<noteq> [] \<and> t = oid_text (next_oid st) \<and>
         documents st' ''character'' = documents st ''character'' @
           [?data(''_id'' \<mapsto> VObjectId (next_oid st))] \<and>
         (\<forall>limit. int (length (documents st' ''character''))
                    \<le> (case limit of None \<Rightarrow> 100 | Some l \<Rightarrow> l) \<longrightarrow>
            (\<exists>r. list_characters str get_documents limit st' = (Inr r, st') \<and>
               (\<exists>d \<in> set (items r). d ''id'' = Some (VStr t) \<and> d ''_id'' = None \<and>
                  (\<forall>k. k \<noteq> ''id'' \<and> k \<noteq> ''_id'' \<longrightarrow> d k = ?data k))))"
    using cr docs ls oid_text_nonempty [of "next_oid st"]
    by (intro exI [of _ ?t] exI [of _ ?st'] conjI) (assumption | rule refl)+
next
  assume v: "ItemCreate.rarity q \<in> RARITIES"
  let ?data = "ItemCreate_model_dump q"
  let ?t = "oid_text (next_oid st)"
  let ?st' = "st\<lparr>documents := (documents st)(''item'' := documents st ''item'' @
             [?data(''_id'' \<mapsto> VObjectId (next_oid st))]), next_oid := Suc (next_oid st)\<rparr>"
  have cr: "create_item create_document q st = (Inr \<lparr>id' = ?t\<rparr>, ?st')"
    using assms(2) v by (rule create_item_stored)
  have cd: "create_document ''item'' ?data st = (Inr ?t, ?st')"
    using assms(2) by (rule create_document_connected)
  have docs: "documents ?st' ''item'' = documents st ''item'' @
      [?data(''_id'' \<mapsto> VObjectId (next_oid st))]"
    by simp
  have ls: "\<forall>limit. int (length (documents ?st' ''item''))
                    \<le> (case limit of None \<Rightarrow> 100 | Some l \<Rightarrow> l) \<longrightarrow>
            (\<exists>r. list_items str get_documents limit ?st' = (Inr r, ?st') \<and>
               (\<exists>d \<in> set (items r). d ''id'' = Some (VStr ?t) \<and> d ''_id'' = None \<and>
                  (\<forall>k. k \<noteq> ''id'' \<and> k \<noteq> ''_id'' \<longrightarrow> d k = ?data k)))"
    using listed_after_insert(2) [OF assms cd] by blast
  show "\<exists>t st'. create_item create_document q st = (Inr \<lparr>id' = t\<rparr>, st') \<and>
         t \<noteq> [] \<and> t = oid_text (next_oid st) \<and>
         documents st' ''item'' = documents st ''item'' @
           [?data(''_id'' \<mapsto> VObjectId (next_oid st))] \<and>
         (\<forall>limit. int (length (documents st' ''item''))
                    \<le> (case limit of None \<Rightarrow> 100 | Some l \<Rightarrow> l) \<longrightarrow>
            (\<exists>r. list_items str get_documents limit st' = (Inr r, st') \<and>
               (\<exists>d \<in> set (items r). d ''id'' = Some (VStr t) \<and> d ''_id'' = None \<and>
                  (\<forall>k. k \<noteq> ''id'' \<and> k \<noteq> ''_id'' \<longrightarrow> d k = ?data k))))"
    using cr docs ls oid_text_nonempty [of "next_oid st"]
    by (intro exI [of _ ?t] exI [of _ ?st'] conjI) (assumption | rule refl)+
qed

theorem create_then_list_witness:
  "\<exists>st' r. create_character create_document
       \<lparr>CharacterCreate.name = ''Ann'', rarity = ''Rare'', nation_code = Some ''CAN'',
        role = None, bio = None, image_url = None, palette = None, stats = None,
        tags = [''a'', ''b'']\<rparr>
       \<lparr>connected = True, documents = (\<lambda>c. []), next_oid = 0\<rparr>
       = (Inr \<lparr>id' = ''000000000000000000000000''\<rparr>, st') \<and>
     list_characters (\<lambda>v. case v of VObjectId n \<Rightarrow> oid_text n | _ \<Rightarrow> []) get_documents None st'
       = (Inr r, st') \<and>
     (\<exists>d \<in> set (items r). d ''id'' = Some (VStr ''000000000000000000000000'') \<and>
        d ''name'' = Some (VStr ''Ann''))"
proof -
  define str where "str = (\<lambda>v. case v of VObjectId n \<Rightarrow> oid_text n | _ \<Rightarrow> [])"
  define p where "p = \<lparr>CharacterCreate.name = ''Ann'', rarity = ''Rare'',
        nation_code = Some ''CAN'',
        role = None, bio = None, image_url = None, palette = None, stats = None,
        tags = [''a'', ''b'']\<rparr>"
  define s where "s = \<lparr>connected = True, documents = (\<lambda>c. []), next_oid = 0\<rparr>"
  define t0 where "t0 = ''000000000000000000000000''"
  define nm where "nm = ''name''"
  define ann where "ann = Some (VStr ''Ann'')"
  have h1: "renders_oid str" by (simp add: renders_oid_def str_def)
  have h2: "connected s" by (simp add: s_def)
  have h3: "CharacterCreate.rarity p \<in> RARITIES" by (simp add: RARITIES_def p_def)
  have n0: "oid_text (next_oid s) = t0" by (simp add: s_def t0_def oid_text_0)
  have e0: "documents s ''character'' = []" by (simp add: s_def)
  have dn: "CharacterCreate_model_dump p nm = ann"
    by (simp add: CharacterCreate_model_dump_def p_def nm_def ann_def)
  have k: "nm \<noteq> ''id'' \<and> nm \<noteq> ''_id''" by (simp add: nm_def)
  note inst = create_then_list [OF h1 h2, THEN conjunct1, THEN mp, OF h3]
  from inst obtain t st' where cr: "create_character create_document p s = (Inr \<lparr>id' = t\<rparr>, st')"
    and t: "t = oid_text (next_oid s)"
    and docs: "documents st' ''character'' = documents s ''character'' @
           [(CharacterCreate_model_dump p)(''_id'' \<mapsto> VObjectId (next_oid s))]"
    and ls: "\<forall>limit. int (length (documents st' ''character''))
                    \<le> (case limit of None \<Rightarrow> 100 | Some l \<Rightarrow> l) \<longrightarrow>
            (\<exists>r. list_characters str get_documents limit st' = (Inr r, st') \<and>
               (\<exists>d \<in> set (items r). d ''id'' = Some (VStr t) \<and> d ''_id'' = None \<and>
                  (\<forall>k. k \<noteq> ''id'' \<and> k \<noteq> ''_id'' \<longrightarrow>
                     d k = CharacterCreate_model_dump p k)))"
    by blast
  from docs e0 have "int (length (documents st' ''character''))
      \<le> (case None of None \<Rightarrow> 100 | Some l \<Rightarrow> l)"
    by simp
  with ls obtain r d where r: "list_characters str get_documents None st' = (Inr r, st')"
    and d: "d \<in> set (items r)" "d ''id'' = Some (VStr t)"
      "\<forall>k. k \<noteq> ''id'' \<and> k \<noteq> ''_id'' \<longrightarrow> d k = CharacterCreate_model_dump p k"
    by blast
  from d(3) k dn have n: "d nm = ann" by simp
  from t n0 have tt: "t = t0" by simp
  have "\<exists>st' r. create_character create_document p s = (Inr \<lparr>id' = t0\<rparr>, st') \<and>
     list_characters str get_documents None st' = (Inr r, st') \<and>
     (\<exists>d \<in> set (items r). d ''id'' = Some (VStr t0) \<and> d nm = ann)"
    using cr r d(1,2) n unfolding tt by blast
  then show ?thesis
    unfolding p_def s_def str_def t0_def nm_def ann_def .
qed

text \<open>
  The claim as stated has no condition on the limit. It fails for the default list call
  once the collection holds 100 records: the new record is the 101st in storage order
  and the listing stops after 100.
\<close>

theorem create_then_default_list_counterexample:
  "\<exists>st' r.
     CharacterCreate.rarity
       \<lparr>CharacterCreate.name = ''Ann'', rarity = ''Rare'', nation_code = None,
        role = None, bio = None, image_url = None, palette = None, stats = None,
        tags = []\<rparr> \<in> RARITIES \<and>
     create_character create_document
       \<lparr>CharacterCreate.name = ''Ann'', rarity = ''Rare'', nation_code = None,
        role = None, bio = None, image_url = None, palette = None, stats = None,
        tags = []\<rparr>
       \<lparr>connected = True,
        documents = (\<lambda>c. if c = ''character''
          then map (\<lambda>i. [''_id'' \<mapsto> VObjectId i, ''name'' \<mapsto> VStr ''Old'']) [0..<100] else []),
        next_oid = 100\<rparr>
       = (Inr \<lparr>id' = ''000000000000000000000064''\<rparr>, st') \<and>
     list_characters (\<lambda>v. case v of VObjectId n \<Rightarrow> oid_text n | _ \<Rightarrow> []) get_documents None st'
       = (Inr r, st') \<and>
     length (items r) = 100 \<and>
     \<not> (\<exists>d \<in> set (items r). d ''id'' = Some (VStr ''000000000000000000000064''))"
proof -
  define str where "str = (\<lambda>v. case v of VObjectId n \<Rightarrow> oid_text n | _ \<Rightarrow> [])"
  define p where "p = \<lparr>CharacterCreate.name = ''Ann'', rarity = ''Rare'', nation_code = None,
        role = None, bio = None, image_url = None, palette = None, stats = None,
        tags = []\<rparr>"
  define old where "old = (\<lambda>i::nat. [''_id'' \<mapsto> VObjectId i, ''name'' \<mapsto> VStr ''Old''])"
  define s where "s = \<lparr>connected = True,
        documents = (\<lambda>c. if c = ''character'' then map old [0..<100] else []),
        next_oid = 100\<rparr>"
  define t where "t = ''000000000000000000000064''"
  define st' where "st' = s\<lparr>documents := (documents s)(''character'' :=
      documents s ''character'' @ [(CharacterCreate_model_dump p)(''_id'' \<mapsto> VObjectId (next_oid s))]),
      next_oid := Suc (next_oid s)\<rparr>"
  define r where "r = \<lparr>items = map (normalize_id str) (map old [0..<100])\<rparr>"
  have v: "CharacterCreate.rarity p \<in> RARITIES" by (simp add: RARITIES_def p_def)
  have c: "connected s" by (simp add: s_def)
  have n: "oid_text (next_oid s) = t" by (simp add: s_def t_def oid_text_100)
  have cr: "create_character create_document p s = (Inr \<lparr>id' = t\<rparr>, st')"
    using create_character_stored [OF c v] unfolding n st'_def .
  have c': "connected st'" by (simp add: st'_def s_def)
  have tk: "take 100 (documents st' ''character'') = map old [0..<100]"
    by (simp add: st'_def s_def)
  have ls: "list_characters str get_documents None st' = (Inr r, st')"
    unfolding list_characters_def Let_def get_documents_connected [OF c'] r_def
    by (simp add: tk)
  have len: "length (items r) = 100" by (simp add: r_def)
  have no: "\<not> (\<exists>d \<in> set (items r). d ''id'' = Some (VStr t))"
  proof
    assume "\<exists>d \<in> set (items r). d ''id'' = Some (VStr t)"
    then obtain i where i: "i < 100"
      and e: "normalize_id str (old i) ''id'' = Some (VStr t)"
      by (auto simp: r_def)
    from e have "oid_text i = oid_text 100"
      by (simp add: normalize_id_def old_def str_def t_def oid_text_100)
    moreover from i have "i < 16 ^ 24" by simp
    moreover have "(100::nat) < 16 ^ 24" by simp
    ultimately have "i = 100" by (rule oid_text_inj [rotated 2])
    with i show False by simp
  qed
  have "\<exists>st' r. CharacterCreate.rarity p \<in> RARITIES \<and>
     create_character create_document p s = (Inr \<lparr>id' = t\<rparr>, st') \<and>
     list_characters str get_documents None st' = (Inr r, st') \<and>
     length (items r) = 100 \<and>
     \<not> (\<exists>d \<in> set (items r). d ''id'' = Some (VStr t))"
    using v cr ls len no by blast
  then show ?thesis
    unfolding p_def s_def str_def t_def old_def .
qed

section \<open>Round trip of the payload's fields\<close>

lemma character_created_and_listed:
  assumes "renders_oid str" and "connected st" and "CharacterCreate.rarity p \<in> RARITIES"
  shows "\<exists>st'. create_character create_document p st
                  = (Inr \<lparr>id' = oid_text (next_oid st)\<rparr>, st') \<and>
           documents st' ''character'' = documents st ''character'' @
             [(CharacterCreate_model_dump p)(''_id'' \<mapsto> VObjectId (next_oid st))] \<and>
           (\<forall>limit. int (length (documents st' ''character''))
                      \<le> (case limit of None \<Rightarrow> 100 | Some l \<Rightarrow> l) \<longrightarrow>
              (\<exists>r. list_characters str get_documents limit st' = (Inr r, st') \<and>
                 (\<exists>d \<in> set (items r). d ''id'' = Some (VStr (oid_text (next_oid st))) \<and>
                    d ''_id'' = None \<and>
                    (\<forall>k. k \<noteq> ''id'' \<and> k \<noteq> ''_id'' \<longrightarrow>
                       d k = CharacterCreate_model_dump p k))))"
proof -
  let ?data = "CharacterCreate_model_dump p"
  let ?st' = "st\<lparr>documents := (documents st)(''character'' := documents st ''character'' @
             [?data(''_id'' \<mapsto> VObjectId (next_oid st))]), next_oid := Suc (next_oid st)\<rparr>"
  have cr: "create_character create_document p st
      = (Inr \<lparr>id' = oid_text (next_oid st)\<rparr>, ?st')"
    using assms(2,3) by (rule create_character_stored)
  have cd: "create_document ''character'' ?data st = (Inr (oid_text (next_oid st)), ?st')"
    using assms(2) by (rule create_document_connected)
  have docs: "documents ?st' ''character'' = documents st ''character'' @
      [?data(''_id'' \<mapsto> VObjectId (next_oid st))]"
    by simp
  have ls: "\<forall>limit. int (length (documents ?st' ''character''))
                    \<le> (case limit of None \<Rightarrow> 100 | Some l \<Rightarrow> l) \<longrightarrow>
            (\<exists>r. list_characters str get_documents limit ?st' = (Inr r, ?st') \<and>
               (\<exists>d \<in> set (items r). d ''id'' = Some (VStr (oid_text (next_oid st))) \<and>
                  d ''_id'' = None \<and>
                  (\<forall>k. k \<noteq> ''id'' \<and> k \<noteq> ''_id'' \<longrightarrow> d k = ?data k)))"
    using listed_after_insert(1) [OF assms(1,2) cd] by blast
  show ?thesis
    using cr docs ls by (intro exI [of _ ?st'] conjI) (assumption | rule refl)+
qed

lemma item_created_and_listed:
  assumes "renders_oid str" and "connected st" and "ItemCreate.rarity q \<in> RARITIES"
  shows "\<exists>st'. create_item create_document q st
                  = (Inr \<lparr>id' = oid_text (next_oid st)\<rparr>, st') \<and>
           documents st' ''item'' = documents st ''item'' @
             [(ItemCreate_model_dump q)(''_id'' \<mapsto> VObjectId (next_oid st))] \<and>
           (\<forall>limit. int (length (documents st' ''item''))
                      \<le> (case limit of None \<Rightarrow> 100 | Some l \<Rightarrow> l) \<longrightarrow>
              (\<exists>r. list_items str get_documents limit st' = (Inr r, st') \<and>
                 (\<exists>d \<in> set (items r). d ''id'' = Some (VStr (oid_text (next_oid st))) \<and>
                    d ''_id'' = None \<and>
                    (\<forall>k. k \<noteq> ''id'' \<and> k \<noteq> ''_id'' \<longrightarrow>
                       d k = ItemCreate_model_dump q k))))"
proof -
  let ?data = "ItemCreate_model_dump q"
  let ?st' = "st\<lparr>documents := (documents st)(''item'' := documents st ''item'' @
             [?data(''_id'' \<mapsto> VObjectId (next_oid st))]), next_oid := Suc (next_oid st)\<rparr>"
  have cr: "create_item create_document q st
      = (Inr \<lparr>id' = oid_text (next_oid st)\<rparr>, ?st')"
    using assms(2,3) by (rule create_item_stored)
  have cd: "create_document ''item'' ?data st = (Inr (oid_text (next_oid st)), ?st')"
    using assms(2) by (rule create_document_connected)
  have docs: "documents ?st' ''item'' = documents st ''item'' @
      [?data(''_id'' \<mapsto> VObjectId (next_oid st))]"
    by simp
  have ls: "\<forall>limit. int (length (documents ?st' ''item''))
                    \<le> (case limit of None \<Rightarrow> 100 | Some l \<Rightarrow> l) \<longrightarrow>
            (\<exists>r. list_items str get_documents limit ?st' = (Inr r, ?st') \<and>
               (\<exists>d \<in> set (items r). d ''id'' = Some (VStr (oid_text (next_oid st))) \<and>
                  d ''_id'' = None \<and>
                  (\<forall>k. k \<noteq> ''id'' \<and> k \<noteq> ''_id'' \<longrightarrow> d k = ?data k)))"
    using listed_after_insert(2) [OF assms(1,2) cd] by blast
  show ?thesis
    using cr docs ls by (intro exI [of _ ?st'] conjI) (assumption | rule refl)+
qed

lemma CharacterCreate_model_dump_tags:
  "CharacterCreate_model_dump p ''tags'' = Some (VList (map VStr (CharacterCreate.tags p)))"
  by (simp add: CharacterCreate_model_dump_def)

lemma ItemCreate_model_dump_tags:
  "ItemCreate_model_dump q ''tags'' = Some (VList (map VStr (ItemCreate.tags q)))"
  by (simp add: ItemCreate_model_dump_def)

text \<open>
  Claim C6. Round trip of \<open>tags\<close>: creating a Character whose \<open>tags\<close> are \<open>["a", "b"]\<close>
  (valid rarity, store available) adds one record to the collection, and every list call
  that reaches it (a limit of at least the collection's size, 100 when omitted) returns
  a record with the created identifier under \<^verbatim>\<open>id\<close> whose field \<^verbatim>\<open>tags\<close> is the list
  \<open>["a", "b"]\<close>, the elements in the same order.
\<close>

theorem tags_round_trip:
  assumes "renders_oid str" and "connected st"
    and "CharacterCreate.rarity p \<in> RARITIES"
    and "CharacterCreate.tags p = [''a'', ''b'']"
  shows "\<exists>t st'. create_character create_document p st = (Inr \<lparr>id' = t\<rparr>, st') \<and>
           length (documents st' ''character'') = Suc (length (documents st ''character'')) \<and>
           (\<forall>limit. int (length (documents st' ''character''))
                      \<le> (case limit of None \<Rightarrow> 100 | Some l \<Rightarrow> l) \<longrightarrow>
              (\<exists>r. list_characters str get_documents limit st' = (Inr r, st') \<and>
                 (\<exists>d \<in> set (items r). d ''id'' = Some (VStr t) \<and>
                    d ''tags'' = Some (VList [VStr ''a'', VStr ''b'']))))"
proof -
  have tg: "CharacterCreate_model_dump p ''tags'' = Some (VList [VStr ''a'', VStr ''b''])"
    by (simp add: CharacterCreate_model_dump_tags assms(4))
  have k: "''tags'' \<noteq> ''id'' \<and> ''tags'' \<noteq> ''_id''" by simp
  from character_created_and_listed [OF assms(1-3)]
  obtain st' where cr: "create_character create_document p st
        = (Inr \<lparr>id' = oid_text (next_oid st)\<rparr>, st')"
    and docs: "documents st' ''character'' = documents st ''character'' @
             [(CharacterCreate_model_dump p)(''_id'' \<mapsto> VObjectId (next_oid st))]"
    and ls: "\<forall>limit. int (length (documents st' ''character''))
                      \<le> (case limit of None \<Rightarrow> 100 | Some l \<Rightarrow> l) \<longrightarrow>
              (\<exists>r. list_characters str get_documents limit st' = (Inr r, st') \<and>
                 (\<exists>d \<in> set (items r). d ''id'' = Some (VStr (oid_text (next_oid st))) \<and>
                    d ''_id'' = None \<and>
                    (\<forall>k. k \<noteq> ''id'' \<and> k \<noteq> ''_id'' \<longrightarrow>
                       d k = CharacterCreate_model_dump p k)))"
    by blast
  have "\<forall>limit. int (length (documents st' ''character''))
                      \<le> (case limit of None \<Rightarrow> 100 | Some l \<Rightarrow> l) \<longrightarrow>
              (\<exists>r. list_characters str get_documents limit st' = (Inr r, st') \<and>
                 (\<exists>d \<in> set (items r). d ''id'' = Some (VStr (oid_text (next_oid st))) \<and>
                    d ''tags'' = Some (VList [VStr ''a'', VStr ''b''])))"
  proof (intro allI impI)
    fix limit
    assume "int (length (documents st' ''character''))
                      \<le> (case limit of None \<Rightarrow> 100 | Some l \<Rightarrow> l)"
    with ls obtain r d where r: "list_characters str get_documents limit st' = (Inr r, st')"
      and d: "d \<in> set (items r)" "d ''id'' = Some (VStr (oid_text (next_oid st)))"
        "\<forall>k. k \<noteq> ''id'' \<and> k \<noteq> ''_id'' \<longrightarrow> d k = CharacterCreate_model_dump p k"
      by blast
    from d(3) have "''tags'' \<noteq> ''id'' \<and> ''tags'' \<noteq> ''_id'' \<longrightarrow>
        d ''tags'' = CharacterCreate_model_dump p ''tags''"
      by (rule spec)
    from this k have "d ''tags'' = CharacterCreate_model_dump p ''tags''" by (rule mp)
    with tg have "d ''tags'' = Some (VList [VStr ''a'', VStr ''b''])" by simp
    with r d(1,2)
    show "\<exists>r. list_characters str get_documents limit st' = (Inr r, st') \<and>
                 (\<exists>d \<in> set (items r). d ''id'' = Some (VStr (oid_text (next_oid st))) \<and>
                    d ''tags'' = Some (VList [VStr ''a'', VStr ''b'']))"
      by blast
  qed
  moreover from docs
  have "length (documents st' ''character'') = Suc (length (documents st ''character''))"
    by simp
  ultimately show ?thesis using cr by blast
qed

theorem tags_round_trip_witness:
  "\<exists>t st' r. create_character create_document
       \<lparr>CharacterCreate.name = ''Ann'', rarity = ''Legendary'', nation_code = None,
        role = None, bio = None, image_url = None, palette = None, stats = None,
        tags = [''a'', ''b'']\<rparr>
       \<lparr>connected = True, documents = (\<lambda>c. []), next_oid = 0\<rparr>
       = (Inr \<lparr>id' = t\<rparr>, st') \<and>
     list_characters (\<lambda>v. case v of VObjectId n \<Rightarrow> oid_text n | _ \<Rightarrow> []) get_documents None st'
       = (Inr r, st') \<and>
     (\<exists>d \<in> set (items r). d ''id'' = Some (VStr t) \<and>
        d ''tags'' = Some (VList [VStr ''a'', VStr ''b'']))"
proof -
  define str where "str = (\<lambda>v. case v of VObjectId n \<Rightarrow> oid_text n | _ \<Rightarrow> [])"
  define p where "p = \<lparr>CharacterCreate.name = ''Ann'', rarity = ''Legendary'',
        nation_code = None,
        role = None, bio = None, image_url = None, palette = None, stats = None,
        tags = [''a'', ''b'']\<rparr>"
  define s where "s = \<lparr>connected = True, documents = (\<lambda>c. []), next_oid = 0\<rparr>"
  define ab where "ab = Some (VList [VStr ''a'', VStr ''b''])"
  have h1: "renders_oid str" by (simp add: renders_oid_def str_def)
  have h2: "connected s" by (simp add: s_def)
  have h3: "CharacterCreate.rarity p \<in> RARITIES" by (simp add: RARITIES_def p_def)
  have h4: "CharacterCreate.tags p = [''a'', ''b'']" by (simp add: p_def)
  have e0: "length (documents s ''character'') = 0" by (simp add: s_def)
  from tags_round_trip [OF h1 h2 h3 h4, folded ab_def]
  obtain t st' where cr: "create_character create_document p s = (Inr \<lparr>id' = t\<rparr>, st')"
    and len: "length (documents st' ''character'') = Suc (length (documents s ''character''))"
    and ls: "\<forall>limit. int (length (documents st' ''character''))
                      \<le> (case limit of None \<Rightarrow> 100 | Some l \<Rightarrow> l) \<longrightarrow>
              (\<exists>r. list_characters str get_documents limit st' = (Inr r, st') \<and>
                 (\<exists>d \<in> set (items r). d ''id'' = Some (VStr t) \<and> d ''tags'' = ab))"
    by blast
  from len e0 have "int (length (documents st' ''character''))
      \<le> (case None of None \<Rightarrow> 100 | Some l \<Rightarrow> l)"
    by simp
  with ls obtain r where "list_characters str get_documents None st' = (Inr r, st')"
    and "\<exists>d \<in> set (items r). d ''id'' = Some (VStr t) \<and> d ''tags'' = ab"
    by blast
  with cr have "\<exists>t st' r. create_character create_document p s = (Inr \<lparr>id' = t\<rparr>, st') \<and>
      list_characters str get_documents None st' = (Inr r, st') \<and>
      (\<exists>d \<in> set (items r). d ''id'' = Some (VStr t) \<and> d ''tags'' = ab)"
    by blast
  then show ?thesis unfolding p_def s_def str_def ab_def .
qed

section \<open>Creation is not idempotent\<close>

lemma native_id_distinguishes:
  "data(''_id'' \<mapsto> VObjectId n) \<noteq> data(''_id'' \<mapsto> VObjectId (Suc n))"
proof
  assume "data(''_id'' \<mapsto> VObjectId n) = data(''_id'' \<mapsto> VObjectId (Suc n))"
  then have "(data(''_id'' \<mapsto> VObjectId n)) ''_id'' = (data(''_id'' \<mapsto> VObjectId (Suc n))) ''_id''"
    by (rule arg_cong [where f = "\<lambda>m. m ''_id''"])
  then show False by simp
qed

lemma create_document_twice:
  assumes "connected st"
  shows "\<exists>st1 st2.
      create_document c data st = (Inr (oid_text (next_oid st)), st1) \<and>
      create_document c data st1 = (Inr (oid_text (Suc (next_oid st))), st2) \<and>
      documents st2 c = documents st c @
        [data(''_id'' \<mapsto> VObjectId (next_oid st)),
         data(''_id'' \<mapsto> VObjectId (Suc (next_oid st)))]"
proof -
  let ?st1 = "st\<lparr>documents := (documents st)(c := documents st c @
        [data(''_id'' \<mapsto> VObjectId (next_oid st))]), next_oid := Suc (next_oid st)\<rparr>"
  let ?st2 = "?st1\<lparr>documents := (documents ?st1)(c := documents ?st1 c @
        [data(''_id'' \<mapsto> VObjectId (next_oid ?st1))]), next_oid := Suc (next_oid ?st1)\<rparr>"
  have a: "create_document c data st = (Inr (oid_text (next_oid st)), ?st1)"
    using assms by (rule create_document_connected)
  from assms have c1: "connected ?st1" by simp
  have "create_document c data ?st1 = (Inr (oid_text (next_oid ?st1)), ?st2)"
    using c1 by (rule create_document_connected)
  then have b: "create_document c data ?st1 = (Inr (oid_text (Suc (next_oid st))), ?st2)"
    by simp
  have d: "documents ?st2 c = documents st c @
        [data(''_id'' \<mapsto> VObjectId (next_oid st)),
         data(''_id'' \<mapsto> VObjectId (Suc (next_oid st)))]"
    by simp
  from a b d show ?thesis by blast
qed

lemma oid_text_1: "oid_text (Suc 0) = ''000000000000000000000001''"
  by code_simp

text \<open>
  Claim C7. A POST is not idempotent. On a payload with a valid rarity, \<open>create_character\<close>
  and \<open>create_item\<close> are exactly one call of \<^verbatim>\<open>create_document\<close> (whatever operation
  \<open>cd\<close> stands for it) whose outcome they pass on. With the store available, two calls
  with the same payload add two records to the collection; the two records differ (in
  their native identifier) and the two identifiers returned differ.
\<close>

theorem post_not_idempotent:
  "(CharacterCreate.rarity p \<in> RARITIES \<longrightarrow>
      create_character cd p s =
        (case cd ''character'' (CharacterCreate_model_dump p) s of
           (Inl e, s') \<Rightarrow> (Inl e, s')
         | (Inr i, s') \<Rightarrow> (Inr \<lparr>id' = i\<rparr>, s'))) \<and>
   (ItemCreate.rarity q \<in> RARITIES \<longrightarrow>
      create_item cd q s =
        (case cd ''item'' (ItemCreate_model_dump q) s of
           (Inl e, s') \<Rightarrow> (Inl e, s')
         | (Inr i, s') \<Rightarrow> (Inr \<lparr>id' = i\<rparr>, s'))) \<and>
   (connected st \<and> CharacterCreate.rarity p \<in> RARITIES \<longrightarrow>
      (\<exists>st1 st2.
         create_character create_document p st
           = (Inr \<lparr>id' = oid_text (next_oid st)\<rparr>, st1) \<and>
         create_character create_document p st1
           = (Inr \<lparr>id' = oid_text (Suc (next_oid st))\<rparr>, st2) \<and>
         oid_text (next_oid st) \<noteq> oid_text (Suc (next_oid st)) \<and>
         documents st2 ''character'' = documents st ''character'' @
           [(CharacterCreate_model_dump p)(''_id'' \<mapsto> VObjectId (next_oid st)),
            (CharacterCreate_model_dump p)(''_id'' \<mapsto> VObjectId (Suc (next_oid st)))] \<and>
         (CharacterCreate_model_dump p)(''_id'' \<mapsto> VObjectId (next_oid st))
           \<noteq> (CharacterCreate_model_dump p)(''_id'' \<mapsto> VObjectId (Suc (next_oid st))))) \<and>
   (connected st \<and> ItemCreate.rarity q \<in> RARITIES \<longrightarrow>
      (\<exists>st1 st2.
         create_item create_document q st
           = (Inr \<lparr>id' = oid_text (next_oid st)\<rparr>, st1) \<and>
         create_item create_document q st1
           = (Inr \<lparr>id' = oid_text (Suc (next_oid st))\<rparr>, st2) \<and>
         oid_text (next_oid st) \<noteq> oid_text (Suc (next_oid st)) \<and>
         documents st2 ''item'' = documents st ''item'' @
           [(ItemCreate_model_dump q)(''_id'' \<mapsto> VObjectId (next_oid st)),
            (ItemCreate_model_dump q)(''_id'' \<mapsto> VObjectId (Suc (next_oid st)))] \<and>
         (ItemCreate_model_dump q)(''_id'' \<mapsto> VObjectId (next_oid st))
           \<noteq> (ItemCreate_model_dump q)(''_id'' \<mapsto> VObjectId (Suc (next_oid st)))))"
proof (intro conjI impI)
  assume "CharacterCreate.rarity p \<in> RARITIES"
  then show "create_character cd p s =
        (case cd ''character'' (CharacterCreate_model_dump p) s of
           (Inl e, s') \<Rightarrow> (Inl e, s')
         | (Inr i, s') \<Rightarrow> (Inr \<lparr>id' = i\<rparr>, s'))"
    by (rule create_character_valid)
next
  assume "ItemCreate.rarity q \<in> RARITIES"
  then show "create_item cd q s =
        (case cd ''item'' (ItemCreate_model_dump q) s of
           (Inl e, s') \<Rightarrow> (Inl e, s')
         | (Inr i, s') \<Rightarrow> (Inr \<lparr>id' = i\<rparr>, s'))"
    by (rule create_item_valid)
next
  assume a: "connected st \<and> CharacterCreate.rarity p \<in> RARITIES"
  then have v: "CharacterCreate.rarity p \<in> RARITIES" and c: "connected st" by simp_all
  from create_document_twice [OF c, of "''character''" "CharacterCreate_model_dump p"]
  obtain st1 st2 where
    "create_document ''character'' (CharacterCreate_model_dump p) st
       = (Inr (oid_text (next_oid st)), st1)"
    "create_document ''character'' (CharacterCreate_model_dump p) st1
       = (Inr (oid_text (Suc (next_oid st))), st2)"
    and d: "documents st2 ''character'' = documents st ''character'' @
           [(CharacterCreate_model_dump p)(''_id'' \<mapsto> VObjectId (next_oid st)),
            (CharacterCreate_model_dump p)(''_id'' \<mapsto> VObjectId (Suc (next_oid st)))]"
    by blast
  then have "create_character create_document p st
           = (Inr \<lparr>id' = oid_text (next_oid st)\<rparr>, st1)"
    and "create_character create_document p st1
           = (Inr \<lparr>id' = oid_text (Suc (next_oid st))\<rparr>, st2)"
    by (simp_all add: create_character_valid [OF v])
  with d oid_text_Suc [of "next_oid st"]
    native_id_distinguishes [of "CharacterCreate_model_dump p" "next_oid st"]
  show "\<exists>st1 st2.
         create_character create_document p st
           = (Inr \<lparr>id' = oid_text (next_oid st)\<rparr>, st1) \<and>
         create_character create_document p st1
           = (Inr \<lparr>id' = oid_text (Suc (next_oid st))\<rparr>, st2) \<and>
         oid_text (next_oid st) \<noteq> oid_text (Suc (next_oid st)) \<and>
         documents st2 ''character'' = documents st ''character'' @
           [(CharacterCreate_model_dump p)(''_id'' \<mapsto> VObjectId (next_oid st)),
            (CharacterCreate_model_dump p)(''_id'' \<mapsto> VObjectId (Suc (next_oid st)))] \<and>
         (CharacterCreate_model_dump p)(''_id'' \<mapsto> VObjectId (next_oid st))
           \<noteq> (CharacterCreate_model_dump p)(''_id'' \<mapsto> VObjectId (Suc (next_oid st)))"
    by (intro exI [of _ st1] exI [of _ st2] conjI) assumption+
next
  assume a: "connected st \<and> ItemCreate.rarity q \<in> RARITIES"
  then have v: "ItemCreate.rarity q \<in> RARITIES" and c: "connected st" by simp_all
  from create_document_twice [OF c, of "''item''" "ItemCreate_model_dump q"]
  obtain st1 st2 where
    "create_document ''item'' (ItemCreate_model_dump q) st
       = (Inr (oid_text (next_oid st)), st1)"
    "create_document ''item'' (ItemCreate_model_dump q) st1
       = (Inr (oid_text (Suc (next_oid st))), st2)"
    and d: "documents st2 ''item'' = documents st ''item'' @
           [(ItemCreate_model_dump q)(''_id'' \<mapsto> VObjectId (next_oid st)),
            (ItemCreate_model_dump q)(''_id'' \<mapsto> VObjectId (Suc (next_oid st)))]"
    by blast
  then have "create_item create_document q st
           = (Inr \<lparr>id' = oid_text (next_oid st)\<rparr>, st1)"
    and "create_item create_document q st1
           = (Inr \<lparr>id' = oid_text (Suc (next_oid st))\<rparr>, st2)"
    by (simp_all add: create_item_valid [OF v])
  with d oid_text_Suc [of "next_oid st"]
    native_id_distinguishes [of "ItemCreate_model_dump q" "next_oid st"]
  show "\<exists>st1 st2.
         create_item create_document q st
           = (Inr \<lparr>id' = oid_text (next_oid st)\<rparr>, st1) \<and>
         create_item create_document q st1
           = (Inr \<lparr>id' = oid_text (Suc (next_oid st))\<rparr>, st2) \<and>
         oid_text (next_oid st) \<noteq> oid_text (Suc (next_oid st)) \<and>
         documents st2 ''item'' = documents st ''item'' @
           [(ItemCreate_model_dump q)(''_id'' \<mapsto> VObjectId (next_oid st)),
            (ItemCreate_model_dump q)(''_id'' \<mapsto> VObjectId (Suc (next_oid st)))] \<and>
         (ItemCreate_model_dump q)(''_id'' \<mapsto> VObjectId (next_oid st))
           \<noteq> (ItemCreate_model_dump q)(''_id'' \<mapsto> VObjectId (Suc (next_oid st)))"
    by (intro exI [of _ st1] exI [of _ st2] conjI) assumption+
qed

theorem post_not_idempotent_witness:
  "\<exists>st1 st2.
     create_item create_document
       \<lparr>ItemCreate.name = ''Sword'', type = ''Weapon'', rarity = ''Epic'', effect = None,
        image_url = None, tags = []\<rparr>
       \<lparr>connected = True, documents = (\<lambda>c. []), next_oid = 0\<rparr>
       = (Inr \<lparr>id' = ''000000000000000000000000''\<rparr>, st1) \<and>
     create_item create_document
       \<lparr>ItemCreate.name = ''Sword'', type = ''Weapon'', rarity = ''Epic'', effect = None,
        image_url = None, tags = []\<rparr> st1
       = (Inr \<lparr>id' = ''000000000000000000000001''\<rparr>, st2) \<and>
     length (documents st2 ''item'') = 2"
proof -
  define q where "q = \<lparr>ItemCreate.name = ''Sword'', type = ''Weapon'', rarity = ''Epic'',
        effect = None, image_url = None, tags = []\<rparr>"
  define s where "s = \<lparr>connected = True, documents = (\<lambda>c. []), next_oid = 0\<rparr>"
  define t0 where "t0 = ''000000000000000000000000''"
  define t1 where "t1 = ''000000000000000000000001''"
  have h: "connected s \<and> ItemCreate.rarity q \<in> RARITIES"
    by (simp add: s_def q_def RARITIES_def)
  have n0: "oid_text (next_oid s) = t0" by (simp add: s_def t0_def oid_text_0)
  have n1: "oid_text (Suc (next_oid s)) = t1" by (simp add: s_def t1_def oid_text_1)
  have e: "documents s ''item'' = []" by (simp add: s_def)
  note inst = post_not_idempotent
    [where q = q and st = s, THEN conjunct2, THEN conjunct2, THEN conjunct2, THEN mp, OF h]
  from inst [unfolded n0 n1 e]
  obtain st1 st2 where a: "create_item create_document q s = (Inr \<lparr>id' = t0\<rparr>, st1)"
    and b: "create_item create_document q st1 = (Inr \<lparr>id' = t1\<rparr>, st2)"
    and d: "documents st2 ''item'' = [] @
           [(ItemCreate_model_dump q)(''_id'' \<mapsto> VObjectId (next_oid s)),
            (ItemCreate_model_dump q)(''_id'' \<mapsto> VObjectId (Suc (next_oid s)))]"
    by blast
  from d have "length (documents st2 ''item'') = 2" by simp
  with a b have "\<exists>st1 st2. create_item create_document q s = (Inr \<lparr>id' = t0\<rparr>, st1) \<and>
      create_item create_document q st1 = (Inr \<lparr>id' = t1\<rparr>, st2) \<and>
      length (documents st2 ''item'') = 2"
    by blast
  then show ?thesis unfolding q_def s_def t0_def t1_def .
qed

section \<open>The default of an omitted \<^verbatim>\<open>tags\<close> field\<close>

lemma with_default_Missing: "with_default d Missing = Inr d"
  by (simp add: with_default_def)

lemma bind_CharacterCreate_tags:
  "bind_CharacterCreate cb = Inr p \<Longrightarrow> CharacterBody.tags cb = Missing \<Longrightarrow>
   CharacterCreate.tags p = []"
  by (auto simp: bind_CharacterCreate_def with_default_Missing split: sum.splits)

lemma bind_ItemCreate_tags:
  "bind_ItemCreate ib = Inr q \<Longrightarrow> ItemBody.tags ib = Missing \<Longrightarrow> ItemCreate.tags q = []"
  by (auto simp: bind_ItemCreate_def with_default_Missing split: sum.splits)

lemma post_api_characters_bound:
  "bind_CharacterCreate cb = Inr p \<Longrightarrow>
   post_api_characters cd cb s = create_character cd p s"
  by (simp add: post_api_characters_def)

lemma post_api_items_bound:
  "bind_ItemCreate ib = Inr q \<Longrightarrow> post_api_items cd ib s = create_item cd q s"
  by (simp add: post_api_items_def)

lemma omitted_tags_character:
  assumes "renders_oid str" and "connected st"
    and "bind_CharacterCreate cb = Inr p" and "CharacterBody.tags cb = Missing"
    and "CharacterCreate.rarity p \<in> RARITIES"
  shows "\<exists>t st'. post_api_characters create_document cb st = (Inr \<lparr>id' = t\<rparr>, st') \<and>
           length (documents st' ''character'') = Suc (length (documents st ''character'')) \<and>
           last (documents st' ''character'') ''tags'' = Some (VList []) \<and>
           (\<forall>limit. int (length (documents st' ''character''))
                      \<le> (case limit of None \<Rightarrow> 100 | Some l \<Rightarrow> l) \<longrightarrow>
              (\<exists>r. list_characters str get_documents limit st' = (Inr r, st') \<and>
                 (\<exists>d \<in> set (items r). d ''id'' = Some (VStr t) \<and>
                    d ''tags'' = Some (VList []))))"
proof -
  have tg: "CharacterCreate_model_dump p ''tags'' = Some (VList [])"
    using bind_CharacterCreate_tags [OF assms(3,4)]
    by (simp add: CharacterCreate_model_dump_tags)
  have k: "''tags'' \<noteq> ''id'' \<and> ''tags'' \<noteq> ''_id''" by simp
  from character_created_and_listed [OF assms(1,2,5)]
  obtain st' where cr: "create_character create_document p st
        = (Inr \<lparr>id' = oid_text (next_oid st)\<rparr>, st')"
    and docs: "documents st' ''character'' = documents st ''character'' @
             [(CharacterCreate_model_dump p)(''_id'' \<mapsto> VObjectId (next_oid st))]"
    and ls: "\<forall>limit. int (length (documents st' ''character''))
                      \<le> (case limit of None \<Rightarrow> 100 | Some l \<Rightarrow> l) \<longrightarrow>
              (\<exists>r. list_characters str get_documents limit st' = (Inr r, st') \<and>
                 (\<exists>d \<in> set (items r). d ''id'' = Some (VStr (oid_text (next_oid st))) \<and>
                    d ''_id'' = None \<and>
                    (\<forall>k. k \<noteq> ''id'' \<and> k \<noteq> ''_id'' \<longrightarrow>
                       d k = CharacterCreate_model_dump p k)))"
    by blast
  have po: "post_api_characters create_document cb st
      = (Inr \<lparr>id' = oid_text (next_oid st)\<rparr>, st')"
    using cr by (simp add: post_api_characters_bound [OF assms(3)])
  from docs have len: "length (documents st' ''character'')
      = Suc (length (documents st ''character''))"
    by simp
  from docs tg have la: "last (documents st' ''character'') ''tags'' = Some (VList [])"
    by simp
  have li: "\<forall>limit. int (length (documents st' ''character''))
                      \<le> (case limit of None \<Rightarrow> 100 | Some l \<Rightarrow> l) \<longrightarrow>
              (\<exists>r. list_characters str get_documents limit st' = (Inr r, st') \<and>
                 (\<exists>d \<in> set (items r). d ''id'' = Some (VStr (oid_text (next_oid st))) \<and>
                    d ''tags'' = Some (VList [])))"
  proof (intro allI impI)
    fix limit
    assume "int (length (documents st' ''character''))
                      \<le> (case limit of None \<Rightarrow> 100 | Some l \<Rightarrow> l)"
    with ls obtain r d where r: "list_characters str get_documents limit st' = (Inr r, st')"
      and d: "d \<in> set (items r)" "d ''id'' = Some (VStr (oid_text (next_oid st)))"
        "\<forall>k. k \<noteq> ''id'' \<and> k \<noteq> ''_id'' \<longrightarrow> d k = CharacterCreate_model_dump p k"
      by blast
    from d(3) have "''tags'' \<noteq> ''id'' \<and> ''tags'' \<noteq> ''_id'' \<longrightarrow>
        d ''tags'' = CharacterCreate_model_dump p ''tags''"
      by (rule spec)
    from this k have "d ''tags'' = CharacterCreate_model_dump p ''tags''" by (rule mp)
    with tg have "d ''tags'' = Some (VList [])" by simp
    with r d(1,2)
    show "\<exists>r. list_characters str get_documents limit st' = (Inr r, st') \<and>
                 (\<exists>d \<in> set (items r). d ''id'' = Some (VStr (oid_text (next_oid st))) \<and>
                    d ''tags'' = Some (VList []))"
      by blast
  qed
  from po len la li show ?thesis by blast
qed

lemma omitted_tags_item:
  assumes "renders_oid str" and "connected st"
    and "bind_ItemCreate ib = Inr q" and "ItemBody.tags ib = Missing"
    and "ItemCreate.rarity q \<in> RARITIES"
  shows "\<exists>t st'. post_api_items create_document ib st = (Inr \<lparr>id' = t\<rparr>, st') \<and>
           length (documents st' ''item'') = Suc (length (documents st ''item'')) \<and>
           last (documents st' ''item'') ''tags'' = Some (VList []) \<and>
           (\<forall>limit. int (length (documents st' ''item''))
                      \<le> (case limit of None \<Rightarrow> 100 | Some l \<Rightarrow> l) \<longrightarrow>
              (\<exists>r. list_items str get_documents limit st' = (Inr r, st') \<and>
                 (\<exists>d \<in> set (items r). d ''id'' = Some (VStr t) \<and>
                    d ''tags'' = Some (VList []))))"
proof -
  have tg: "ItemCreate_model_dump q ''tags'' = Some (VList [])"
    using bind_ItemCreate_tags [OF assms(3,4)]
    by (simp add: ItemCreate_model_dump_tags)
  have k: "''tags'' \<noteq> ''id'' \<and> ''tags'' \<noteq> ''_id''" by simp
  from item_created_and_listed [OF assms(1,2,5)]
  obtain st' where cr: "create_item create_document q st
        = (Inr \<lparr>id' = oid_text (next_oid st)\<rparr>, st')"
    and docs: "documents st' ''item'' = documents st ''item'' @
             [(ItemCreate_model_dump q)(''_id'' \<mapsto> VObjectId (next_oid st))]"
    and ls: "\<forall>limit. int (length (documents st' ''item''))
                      \<le> (case limit of None \<Rightarrow> 100 | Some l \<Rightarrow> l) \<longrightarrow>
              (\<exists>r. list_items str get_documents limit st' = (Inr r, st') \<and>
                 (\<exists>d \<in> set (items r). d ''id'' = Some (VStr (oid_text (next_oid st))) \<and>
                    d ''_id'' = None \<and>
                    (\<forall>k. k \<noteq> ''id'' \<and> k \<noteq> ''_id'' \<longrightarrow>
                       d k = ItemCreate_model_dump q k)))"
    by blast
  have po: "post_api_items create_document ib st
      = (Inr \<lparr>id' = oid_text (next_oid st)\<rparr>, st')"
    using cr by (simp add: post_api_items_bound [OF assms(3)])
  from docs have len: "length (documents st' ''item'')
      = Suc (length (documents st ''item''))"
    by simp
  from docs tg have la: "last (documents st' ''item'') ''tags'' = Some (VList [])"
    by simp
  have li: "\<forall>limit. int (length (documents st' ''item''))
                      \<le> (case limit of None \<Rightarrow> 100 | Some l \<Rightarrow> l) \<longrightarrow>
              (\<exists>r. list_items str get_documents limit st' = (Inr r, st') \<and>
                 (\<exists>d \<in> set (items r). d ''id'' = Some (VStr (oid_text (next_oid st))) \<and>
                    d ''tags'' = Some (VList [])))"
  proof (intro allI impI)
    fix limit
    assume "int (length (documents st' ''item''))
                      \<le> (case limit of None \<Rightarrow> 100 | Some l \<Rightarrow> l)"
    with ls obtain r d where r: "list_items str get_documents limit st' = (Inr r, st')"
      and d: "d \<in> set (items r)" "d ''id'' = Some (VStr (oid_text (next_oid st)))"
        "\<forall>k. k \<noteq> ''id'' \<and> k \<noteq> ''_id'' \<longrightarrow> d k = ItemCreate_model_dump q k"
      by blast
    from d(3) have "''tags'' \<noteq> ''id'' \<and> ''tags'' \<noteq> ''_id'' \<longrightarrow>
        d ''tags'' = ItemCreate_model_dump q ''tags''"
      by (rule spec)
    from this k have "d ''tags'' = ItemCreate_model_dump q ''tags''" by (rule mp)
    with tg have "d ''tags'' = Some (VList [])" by simp
    with r d(1,2)
    show "\<exists>r. list_items str get_documents limit st' = (Inr r, st') \<and>
                 (\<exists>d \<in> set (items r). d ''id'' = Some (VStr (oid_text (next_oid st))) \<and>
                    d ''tags'' = Some (VList []))"
      by blast
  qed
  from po len la li show ?thesis by blast
qed

text \<open>
  Claim C9. A Character or Item body that omits \<^verbatim>\<open>tags\<close> binds to a payload whose
  \<open>tags\<close> are the empty list, and \<^verbatim>\<open>model_dump\<close> hands \<^verbatim>\<open>tags = []\<close> to
  \<^verbatim>\<open>create_document\<close>. With the store available and a valid rarity, the POST route
  persists one record whose \<^verbatim>\<open>tags\<close> field is \<^verbatim>\<open>[]\<close>, and a list call that reaches the
  record returns it with \<^verbatim>\<open>tags\<close> equal to \<^verbatim>\<open>[]\<close>.
\<close>

theorem tags_default_empty:
  "(bind_CharacterCreate cb = Inr p \<and> CharacterBody.tags cb = Missing \<longrightarrow>
      CharacterCreate.tags p = [] \<and>
      CharacterCreate_model_dump p ''tags'' = Some (VList [])) \<and>
   (bind_ItemCreate ib = Inr q \<and> ItemBody.tags ib = Missing \<longrightarrow>
      ItemCreate.tags q = [] \<and>
      ItemCreate_model_dump q ''tags'' = Some (VList [])) \<and>
   (renders_oid str \<and> connected st \<and> bind_CharacterCreate cb = Inr p \<and>
    CharacterBody.tags cb = Missing \<and> CharacterCreate.rarity p \<in> RARITIES \<longrightarrow>
      (\<exists>t st'. post_api_characters create_document cb st = (Inr \<lparr>id' = t\<rparr>, st') \<and>
           length (documents st' ''character'') = Suc (length (documents st ''character'')) \<and>
           last (documents st' ''character'') ''tags'' = Some (VList []) \<and>
           (\<forall>limit. int (length (documents st' ''character''))
                      \<le> (case limit of None \<Rightarrow> 100 | Some l \<Rightarrow> l) \<longrightarrow>
              (\<exists>r. list_characters str get_documents limit st' = (Inr r, st') \<and>
                 (\<exists>d \<in> set (items r). d ''id'' = Some (VStr t) \<and>
                    d ''tags'' = Some (VList [])))))) \<and>
   (renders_oid str \<and> connected st \<and> bind_ItemCreate ib = Inr q \<and>
    ItemBody.tags ib = Missing \<and> ItemCreate.rarity q \<in> RARITIES \<longrightarrow>
      (\<exists>t st'. post_api_items create_document ib st = (Inr \<lparr>id' = t\<rparr>, st') \<and>
           length (documents st' ''item'') = Suc (length (documents st ''item'')) \<and>
           last (documents st' ''item'') ''tags'' = Some (VList []) \<and>
           (\<forall>limit. int (length (documents st' ''item''))
                      \<le> (case limit of None \<Rightarrow> 100 | Some l \<Rightarrow> l) \<longrightarrow>
              (\<exists>r. list_items str get_documents limit st' = (Inr r, st') \<and>
                 (\<exists>d \<in> set (items r). d ''id'' = Some (VStr t) \<and>
                    d ''tags'' = Some (VList []))))))"
proof (intro conjI impI)
  assume a: "bind_CharacterCreate cb = Inr p \<and> CharacterBody.tags cb = Missing"
  then show "CharacterCreate.tags p = []"
    using bind_CharacterCreate_tags [of cb p] by simp
  then show "CharacterCreate_model_dump p ''tags'' = Some (VList [])"
    by (simp add: CharacterCreate_model_dump_tags)
next
  assume a: "bind_ItemCreate ib = Inr q \<and> ItemBody.tags ib = Missing"
  then show "ItemCreate.tags q = []"
    using bind_ItemCreate_tags [of ib q] by simp
  then show "ItemCreate_model_dump q ''tags'' = Some (VList [])"
    by (simp add: ItemCreate_model_dump_tags)
next
  assume "renders_oid str \<and> connected st \<and> bind_CharacterCreate cb = Inr p \<and>
    CharacterBody.tags cb = Missing \<and> CharacterCreate.rarity p \<in> RARITIES"
  then have "renders_oid str" "connected st" "bind_CharacterCreate cb = Inr p"
    "CharacterBody.tags cb = Missing" "CharacterCreate.rarity p \<in> RARITIES"
    by simp_all
  then show "\<exists>t st'. post_api_characters create_document cb st = (Inr \<lparr>id' = t\<rparr>, st') \<and>
           length (documents st' ''character'') = Suc (length (documents st ''character'')) \<and>
           last (documents st' ''character'') ''tags'' = Some (VList []) \<and>
           (\<forall>limit. int (length (documents st' ''character''))
                      \<le> (case limit of None \<Rightarrow> 100 | Some l \<Rightarrow> l) \<longrightarrow>
              (\<exists>r. list_characters str get_documents limit st' = (Inr r, st') \<and>
                 (\<exists>d \<in> set (items r). d ''id'' = Some (VStr t) \<and>
                    d ''tags'' = Some (VList []))))"
    by (rule omitted_tags_character)
next
  assume "renders_oid str \<and> connected st \<and> bind_ItemCreate ib = Inr q \<and>
    ItemBody.tags ib = Missing \<and> ItemCreate.rarity q \<in> RARITIES"
  then have "renders_oid str" "connected st" "bind_ItemCreate ib = Inr q"
    "ItemBody.tags ib = Missing" "ItemCreate.rarity q \<in> RARITIES"
    by simp_all
  then show "\<exists>t st'. post_api_items create_document ib st = (Inr \<lparr>id' = t\<rparr>, st') \<and>
           length (documents st' ''item'') = Suc (length (documents st ''item'')) \<and>
           last (documents st' ''item'') ''tags'' = Some (VList []) \<and>
           (\<forall>limit. int (length (documents st' ''item''))
                      \<le> (case limit of None \<Rightarrow> 100 | Some l \<Rightarrow> l) \<longrightarrow>
              (\<exists>r. list_items str get_documents limit st' = (Inr r, st') \<and>
                 (\<exists>d \<in> set (items r). d ''id'' = Some (VStr t) \<and>
                    d ''tags'' = Some (VList []))))"
    by (rule omitted_tags_item)
qed

theorem tags_default_empty_witness:
  "bind_ItemCreate
     \<lparr>ItemBody.name = Given ''Sword'', type = Given ''Weapon'', rarity = Given ''Epic'',
      effect = Missing, image_url = Missing, tags = Missing\<rparr>
     = Inr \<lparr>ItemCreate.name = ''Sword'', type = ''Weapon'', rarity = ''Epic'',
            effect = None, image_url = None, tags = []\<rparr> \<and>
   (\<exists>t st' r.
      post_api_items create_document
        \<lparr>ItemBody.name = Given ''Sword'', type = Given ''Weapon'', rarity = Given ''Epic'',
         effect = Missing, image_url = Missing, tags = Missing\<rparr>
        \<lparr>connected = True, documents = (\<lambda>c. []), next_oid = 0\<rparr>
        = (Inr \<lparr>id' = t\<rparr>, st') \<and>
      list_items (\<lambda>v. case v of VObjectId n \<Rightarrow> oid_text n | _ \<Rightarrow> []) get_documents None st'
        = (Inr r, st') \<and>
      (\<exists>d \<in> set (items r). d ''id'' = Some (VStr t) \<and> d ''tags'' = Some (VList [])))"
proof -
  define str where "str = (\<lambda>v. case v of VObjectId n \<Rightarrow> oid_text n | _ \<Rightarrow> [])"
  define ib where "ib = \<lparr>ItemBody.name = Given ''Sword'', type = Given ''Weapon'',
      rarity = Given ''Epic'', effect = Missing, image_url = Missing, tags = Missing\<rparr>"
  define q where "q = \<lparr>ItemCreate.name = ''Sword'', type = ''Weapon'', rarity = ''Epic'',
            effect = None, image_url = None, tags = []\<rparr>"
  define s where "s = \<lparr>connected = True, documents = (\<lambda>c. []), next_oid = 0\<rparr>"
  define e where "e = Some (VList [])"
  have b: "bind_ItemCreate ib = Inr q"
    by (simp add: bind_ItemCreate_def ib_def q_def required_def with_default_def)
  have h: "renders_oid str \<and> connected s \<and> bind_ItemCreate ib = Inr q \<and>
    ItemBody.tags ib = Missing \<and> ItemCreate.rarity q \<in> RARITIES"
    using b by (simp add: renders_oid_def str_def s_def ib_def q_def RARITIES_def)
  have e0: "length (documents s ''item'') = 0" by (simp add: s_def)
  note inst = tags_default_empty
    [where str = str and st = s and ib = ib and q = q,
      THEN conjunct2, THEN conjunct2, THEN conjunct2, THEN mp, OF h, folded e_def]
  from inst obtain t st' where po: "post_api_items create_document ib s = (Inr \<lparr>id' = t\<rparr>, st')"
    and len: "length (documents st' ''item'') = Suc (length (documents s ''item''))"
    and ls: "\<forall>limit. int (length (documents st' ''item''))
                      \<le> (case limit of None \<Rightarrow> 100 | Some l \<Rightarrow> l) \<longrightarrow>
              (\<exists>r. list_items str get_documents limit st' = (Inr r, st') \<and>
                 (\<exists>d \<in> set (items r). d ''id'' = Some (VStr t) \<and> d ''tags'' = e))"
    by blast
  from len e0 have "int (length (documents st' ''item''))
      \<le> (case None of None \<Rightarrow> 100 | Some l \<Rightarrow> l)"
    by simp
  with ls obtain r where "list_items str get_documents None st' = (Inr r, st')"
    and "\<exists>d \<in> set (items r). d ''id'' = Some (VStr t) \<and> d ''tags'' = e"
    by blast
  with po b have "bind_ItemCreate ib = Inr q \<and>
    (\<exists>t st' r. post_api_items create_document ib s = (Inr \<lparr>id' = t\<rparr>, st') \<and>
      list_items str get_documents None st' = (Inr r, st') \<and>
      (\<exists>d \<in> set (items r). d ''id'' = Some (VStr t) \<and> d ''tags'' = e))"
    by blast
  then show ?thesis unfolding ib_def q_def s_def str_def e_def .
qed

end
